theory Spec2Isabelle
  imports Main "HOL-Library.Sublist"
begin

section \<open>Python values\<close>

text \<open>
  A Python \<open>str\<close> is modelled as a \<^typ>\<open>string\<close> holding its UTF-8 bytes. The prompt
  templates of the agents are plain ASCII; the report template has six pictographs, which
  are named here by their Unicode names and spelled out as bytes. Containment of one
  string in another, and the number of occurrences of an ASCII string, are the same on
  code points and on UTF-8 bytes.
\<close>

definition emoji_rocket :: string where
  "emoji_rocket = [CHR 0xF0, CHR 0x9F, CHR 0x9A, CHR 0x80]"

definition emoji_clipboard :: string where
  "emoji_clipboard = [CHR 0xF0, CHR 0x9F, CHR 0x93, CHR 0x8B]"

definition emoji_direct_hit :: string where
  "emoji_direct_hit = [CHR 0xF0, CHR 0x9F, CHR 0x8E, CHR 0xAF]"

definition emoji_personal_computer :: string where
  "emoji_personal_computer = [CHR 0xF0, CHR 0x9F, CHR 0x92, CHR 0xBB]"

definition emoji_public_address_loudspeaker :: string where
  "emoji_public_address_loudspeaker = [CHR 0xF0, CHR 0x9F, CHR 0x93, CHR 0xA2]"

definition emoji_white_heavy_check_mark :: string where
  "emoji_white_heavy_check_mark = [CHR 0xE2, CHR 0x9C, CHR 0x85]"

text \<open>
  The optional arguments of the agents (\<open>strategy_context: str = None\<close>) are
  \<^typ>\<open>string option\<close>. \<open>truthy\<close> is the test \<open>if x:\<close> on such a value, and
  \<open>format_str\<close> is what an f-string writes for \<open>{x}\<close>.
\<close>

fun truthy :: "string option \<Rightarrow> bool" where
  "truthy None = False"
| "truthy (Some s) = (s \<noteq> [])"

fun format_str :: "string option \<Rightarrow> string" where
  "format_str None = ''None''"
| "format_str (Some s) = s"

text \<open>
  Exceptions are values. \<open>KeyError\<close> is raised by \<open>state[key]\<close> on a missing key;
  \<open>GenerationFailure\<close> stands for whatever the hosted model client raises.
\<close>

datatype error = KeyError string | GenerationFailure string

section \<open>The text generator and the record of what was called\<close>

text \<open>
  Every agent owns a chat client \<open>self.llm\<close>. A call \<open>self.llm.invoke(messages)\<close> either
  returns the content of a response or raises. Within one run each client is invoked at
  most once, so a client is a function of the messages it receives. The calls made are
  appended to a list of events, in the order they happen: that list is not part of the
  Python program, it records what the program did.
\<close>

datatype agent = StrategyAgent | TechnicalAgent | MarketingAgent

datatype message = SystemMessage string | HumanMessage string

type_synonym generator = "agent \<Rightarrow> message list \<Rightarrow> error + string"

datatype event =
    LLM_invoke agent "message list"
  | Call_analyze_startup_idea string
  | Call_analyze_technical_requirements string "string option"
  | Call_create_marketing_strategy string "string option" "string option"

definition llm_invoke ::
  "generator \<Rightarrow> agent \<Rightarrow> message list \<Rightarrow> event list \<Rightarrow> (error + string) \<times> event list" where
  "llm_invoke gen a messages log = (gen a messages, log @ [LLM_invoke a messages])"

section \<open>agents/strategy\_agent.py\<close>

definition strategy_system_prompt :: string where
  \<open>strategy_system_prompt =
     ''You are an experienced CEO and business strategist with 20+ years of experience in startup advisory. \<newline>'' @
     ''\<newline>'' @
     ''Your expertise includes:\<newline>'' @
     ''- Business model design and validation\<newline>'' @
     ''- Market analysis and competitive positioning\<newline>'' @
     ''- Revenue strategy and growth planning\<newline>'' @
     ''- Risk assessment and mitigation\<newline>'' @
     ''- Strategic planning and execution\<newline>'' @
     ''\<newline>'' @
     ''When analyzing a startup idea, you provide:\<newline>'' @
     ''1. **Business Model Analysis**: How the business will work\<newline>'' @
     ''2. **Market Opportunity**: Target market size and potential\<newline>'' @
     ''3. **Competitive Landscape**: Key competitors and differentiation\<newline>'' @
     ''4. **Revenue Streams**: How the business will make money\<newline>'' @
     ''5. **Strategic Recommendations**: Key actions and priorities\<newline>'' @
     ''6. **Risk Assessment**: Potential challenges and mitigation strategies\<newline>'' @
     ''\<newline>'' @
     ''Be thorough, analytical, and provide actionable insights. Use clear structure and bullet points for readability.''\<close>

text \<open>
  The f-string handed to the model by \<open>analyze_startup_idea\<close>: the literal text before
  and after the one place where \<open>{startup_idea}\<close> is written.
\<close>

definition strategy_prompt_1 :: string where
  \<open>strategy_prompt_1 =
     ''Analyze this startup idea comprehensively:\<newline>'' @
     ''\<newline>'' @
     ''**Startup Idea:** ''\<close>

definition strategy_prompt_2 :: string where
  \<open>strategy_prompt_2 =
     ''\<newline>'' @
     ''\<newline>'' @
     ''Provide a detailed strategic analysis covering:\<newline>'' @
     ''1. Business Model & Value Proposition\<newline>'' @
     ''2. Target Market & Customer Segments\<newline>'' @
     ''3. Competitive Analysis\<newline>'' @
     ''4. Revenue Model & Pricing Strategy\<newline>'' @
     ''5. Key Success Factors\<newline>'' @
     ''6. Potential Risks & Mitigation\<newline>'' @
     ''7. Strategic Recommendations & Next Steps\<newline>'' @
     ''\<newline>'' @
     ''Be specific and actionable in your recommendations.''\<close>

definition strategy_prompt :: "string \<Rightarrow> string" where
  "strategy_prompt startup_idea = strategy_prompt_1 @ startup_idea @ strategy_prompt_2"

definition strategy_messages :: "string \<Rightarrow> message list" where
  "strategy_messages startup_idea =
     [SystemMessage strategy_system_prompt, HumanMessage (strategy_prompt startup_idea)]"

definition analyze_startup_idea ::
  "generator \<Rightarrow> string \<Rightarrow> event list \<Rightarrow> (error + string) \<times> event list" where
  "analyze_startup_idea gen startup_idea log =
     llm_invoke gen StrategyAgent (strategy_messages startup_idea)
       (log @ [Call_analyze_startup_idea startup_idea])"

section \<open>agents/technical\_agent.py\<close>

definition technical_system_prompt :: string where
  \<open>technical_system_prompt =
     ''You are an experienced CTO and technical architect with 15+ years in software development and system design.\<newline>'' @
     ''\<newline>'' @
     ''Your expertise includes:\<newline>'' @
     ''- Technology stack selection and architecture design\<newline>'' @
     ''- Scalability and performance optimization\<newline>'' @
     ''- Development timeline and resource estimation\<newline>'' @
     ''- Technical risk assessment and mitigation\<newline>'' @
     ''- DevOps, security, and infrastructure planning\<newline>'' @
     ''- Cost-effective technical solutions\<newline>'' @
     ''\<newline>'' @
     ''**IMPORTANT - Collaborative Approach:**\<newline>'' @
     ''You will receive business strategy insights from the Strategy Agent. Your job is to:\<newline>'' @
     ''1. **Read and understand** the business requirements carefully\<newline>'' @
     ''2. **Reference specific business needs** in your recommendations\<newline>'' @
     ''3. **Align technical decisions** with business goals, budget, and timeline\<newline>'' @
     ''4. **Explain WHY** each technical choice supports the business strategy\<newline>'' @
     ''\<newline>'' @
     ''When analyzing, provide:\<newline>'' @
     ''1. **Recommended Tech Stack**: Specific technologies with justifications tied to business needs\<newline>'' @
     ''2. **System Architecture**: High-level design that supports the business model\<newline>'' @
     ''3. **Development Roadmap**: Phased approach aligned with business priorities\<newline>'' @
     ''4. **Resource Requirements**: Team size, skills, and budget estimates\<newline>'' @
     ''5. **Technical Risks**: Challenges and mitigation strategies\<newline>'' @
     ''6. **Scalability Plan**: How the system will grow with the business\<newline>'' @
     ''\<newline>'' @
     ''Always connect your technical recommendations back to the business strategy. \<newline>'' @
     ''For example: "Given the target of busy professionals mentioned in the strategy, \<newline>'' @
     ''we'll prioritize mobile-first design and quick load times under 2 seconds."\<newline>''\<close>

text \<open>
  The two f-strings of \<open>analyze_technical_requirements\<close>, each cut at the places where a
  variable is written. The collaborative one reads
  \<open>technical_collaborative_1 {strategy_context} technical_collaborative_2 {startup_idea}
  technical_collaborative_3\<close>, the standalone one
  \<open>technical_standalone_1 {startup_idea} technical_standalone_2\<close>.
\<close>

definition technical_collaborative_1 :: string where
  \<open>technical_collaborative_1 =
     ''Based on the business strategy analysis below, provide comprehensive technical recommendations.\<newline>'' @
     ''\<newline>'' @
     ''**BUSINESS STRATEGY ANALYSIS:**\<newline>''\<close>

definition technical_collaborative_2 :: string where
  \<open>technical_collaborative_2 =
     ''\<newline>'' @
     ''\<newline>'' @
     ''**ORIGINAL STARTUP IDEA:**\<newline>''\<close>

definition technical_collaborative_3 :: string where
  \<open>technical_collaborative_3 =
     ''\<newline>'' @
     ''\<newline>'' @
     ''Now, as the CTO, provide technical analysis that ALIGNS with the business strategy above. \<newline>'' @
     ''\<newline>'' @
     ''Structure your response as:\<newline>'' @
     ''\<newline>'' @
     ''## 1. Technical Strategy Overview\<newline>'' @
     ''(How your technical approach supports the business goals)\<newline>'' @
     ''\<newline>'' @
     ''## 2. Recommended Technology Stack\<newline>'' @
     ''(Specific technologies with justifications linked to business needs)\<newline>'' @
     ''- Frontend:\<newline>'' @
     ''- Backend:\<newline>'' @
     ''- Database:\<newline>'' @
     ''- Infrastructure:\<newline>'' @
     ''- AI/ML (if applicable):\<newline>'' @
     ''\<newline>'' @
     ''## 3. System Architecture\<newline>'' @
     ''(High-level design that supports the business model)\<newline>'' @
     ''\<newline>'' @
     ''## 4. Development Roadmap\<newline>'' @
     ''(Phased approach aligned with business priorities and timeline)\<newline>'' @
     ''- Phase 1 (MVP):\<newline>'' @
     ''- Phase 2 (Scale):\<newline>'' @
     ''- Phase 3 (Advanced):\<newline>'' @
     ''\<newline>'' @
     ''## 5. Team & Resource Requirements\<newline>'' @
     ''(Based on the business strategy and timeline)\<newline>'' @
     ''\<newline>'' @
     ''## 6. Technical Risks & Mitigation\<newline>'' @
     ''(Specific to this business model and market)\<newline>'' @
     ''\<newline>'' @
     ''## 7. Cost Estimates\<newline>'' @
     ''(Infrastructure and development costs aligned with business budget)\<newline>'' @
     ''\<newline>'' @
     ''## 8. Scalability & Performance Strategy\<newline>'' @
     ''(How we'll handle growth based on business projections)\<newline>'' @
     ''\<newline>'' @
     ''**Remember:** Reference specific points from the business strategy in your recommendations!''\<close>

definition technical_standalone_1 :: string where
  \<open>technical_standalone_1 =
     ''Analyze the technical requirements for this startup idea:\<newline>'' @
     ''\<newline>'' @
     ''**STARTUP IDEA:**\<newline>''\<close>

definition technical_standalone_2 :: string where
  \<open>technical_standalone_2 =
     ''\<newline>'' @
     ''\<newline>'' @
     ''Provide comprehensive technical recommendations covering:\<newline>'' @
     ''1. Technology Stack\<newline>'' @
     ''2. System Architecture\<newline>'' @
     ''3. Development Roadmap\<newline>'' @
     ''4. Resource Requirements\<newline>'' @
     ''5. Technical Risks\<newline>'' @
     ''6. Cost Estimates\<newline>'' @
     ''7. Scalability Plan''\<close>

text \<open>
  The local variable \<open>prompt\<close>: the collaborative template when the strategy context is
  truthy, the standalone one otherwise.
\<close>

definition technical_prompt :: "string \<Rightarrow> string option \<Rightarrow> string" where
  "technical_prompt startup_idea strategy_context =
     (if truthy strategy_context then
        technical_collaborative_1 @ format_str strategy_context @
        technical_collaborative_2 @ startup_idea @
        technical_collaborative_3
      else
        technical_standalone_1 @ startup_idea @
        technical_standalone_2)"

definition technical_messages :: "string \<Rightarrow> string option \<Rightarrow> message list" where
  "technical_messages startup_idea strategy_context =
     [SystemMessage technical_system_prompt,
      HumanMessage (technical_prompt startup_idea strategy_context)]"

definition analyze_technical_requirements ::
  "generator \<Rightarrow> string \<Rightarrow> string option \<Rightarrow> event list \<Rightarrow> (error + string) \<times> event list" where
  "analyze_technical_requirements gen startup_idea strategy_context log =
     llm_invoke gen TechnicalAgent (technical_messages startup_idea strategy_context)
       (log @ [Call_analyze_technical_requirements startup_idea strategy_context])"

section \<open>agents/marketing\_agent.py\<close>

definition marketing_system_prompt :: string where
  \<open>marketing_system_prompt =
     ''You are an experienced CMO and marketing strategist with 15+ years in brand building, customer acquisition, and growth marketing.\<newline>'' @
     ''\<newline>'' @
     ''Your expertise includes:\<newline>'' @
     ''- Brand positioning and messaging\<newline>'' @
     ''- Customer acquisition strategy (paid and organic)\<newline>'' @
     ''- Content marketing and storytelling\<newline>'' @
     ''- Channel strategy and optimization\<newline>'' @
     ''- Growth hacking and viral marketing\<newline>'' @
     ''- Marketing budget allocation and ROI\<newline>'' @
     ''\<newline>'' @
     ''**CRITICAL - Collaborative Mindset:**\<newline>'' @
     ''You work closely with the Strategy Agent (CEO) and Technical Agent (CTO). Your marketing plans must:\<newline>'' @
     ''\<newline>'' @
     ''1. **Align with Business Strategy**: \<newline>'' @
     ''   - Target the exact customer segments identified\<newline>'' @
     ''   - Support the revenue model and pricing\<newline>'' @
     ''   - Match the timeline and growth goals\<newline>'' @
     ''   \<newline>'' @
     ''2. **Work with Technical Constraints**:\<newline>'' @
     ''   - Market what can actually be built\<newline>'' @
     ''   - Time campaigns with product launch dates\<newline>'' @
     ''   - Consider platform limitations (web vs mobile vs both)\<newline>'' @
     ''   \<newline>'' @
     ''3. **Create Cohesion**:\<newline>'' @
     ''   - Reference specific points from strategy and tech analyses\<newline>'' @
     ''   - Show how marketing supports both business and technical plans\<newline>'' @
     ''   - Build bridges between different aspects of the business\<newline>'' @
     ''\<newline>'' @
     ''When creating marketing strategy, provide:\<newline>'' @
     ''1. **Brand Positioning**: How we'll position in the market (based on competitive analysis)\<newline>'' @
     ''2. **Target Audience Strategy**: Specific segments with acquisition tactics\<newline>'' @
     ''3. **Marketing Channels**: Prioritized based on budget, timeline, and platform\<newline>'' @
     ''4. **Content Strategy**: What we'll create and why\<newline>'' @
     ''5. **Go-to-Market Plan**: Phased approach aligned with product development\<newline>'' @
     ''6. **Budget Allocation**: How to spend limited resources effectively\<newline>'' @
     ''7. **Success Metrics**: KPIs that matter for this specific business\<newline>'' @
     ''\<newline>'' @
     ''Always reference the strategy and technical context in your recommendations!\<newline>''\<close>

text \<open>
  The three f-strings of \<open>create_marketing_strategy\<close>, cut in the same way: the full one
  writes \<open>{strategy_context}\<close>, \<open>{technical_context}\<close> and \<open>{startup_idea}\<close> in this order,
  the strategy-only one \<open>{strategy_context}\<close> and \<open>{startup_idea}\<close>, the standalone one
  \<open>{startup_idea}\<close>.
\<close>

definition marketing_full_1 :: string where
  \<open>marketing_full_1 =
     ''You are the CMO. Read the analyses from your CEO (Strategy) and CTO (Technical) below, then create a marketing strategy that aligns with both.\<newline>'' @
     ''\<newline>'' @
     ''**CEO'S BUSINESS STRATEGY:**\<newline>''\<close>

definition marketing_full_2 :: string where
  \<open>marketing_full_2 =
     ''\<newline>'' @
     ''\<newline>'' @
     ''**CTO'S TECHNICAL PLAN:**\<newline>''\<close>

definition marketing_full_3 :: string where
  \<open>marketing_full_3 =
     ''\<newline>'' @
     ''\<newline>'' @
     ''**ORIGINAL STARTUP IDEA:**\<newline>''\<close>

definition marketing_full_4 :: string where
  \<open>marketing_full_4 =
     ''\<newline>'' @
     ''\<newline>'' @
     ''Now, create a comprehensive marketing strategy that:\<newline>'' @
     ''- Targets the customers identified by the CEO\<newline>'' @
     ''- Works within the budget and timeline from business strategy\<newline>'' @
     ''- Aligns with the technical platform and launch plan from CTO\<newline>'' @
     ''- Creates a cohesive go-to-market approach\<newline>'' @
     ''\<newline>'' @
     ''Structure your response as:\<newline>'' @
     ''\<newline>'' @
     ''## 1. Brand Positioning & Messaging\<newline>'' @
     ''(Based on competitive analysis and target market from strategy)\<newline>'' @
     ''\<newline>'' @
     ''## 2. Target Audience Strategy\<newline>'' @
     ''(Specific segments with acquisition tactics for each)\<newline>'' @
     ''- Primary Segment:\<newline>'' @
     ''- Secondary Segment:\<newline>'' @
     ''- Acquisition Channels for Each:\<newline>'' @
     ''\<newline>'' @
     ''## 3. Marketing Channel Strategy\<newline>'' @
     ''(Prioritized channels based on budget, platform, and timeline)\<newline>'' @
     ''- Phase 1 (Pre-Launch):\<newline>'' @
     ''- Phase 2 (Launch):\<newline>'' @
     ''- Phase 3 (Growth):\<newline>'' @
     ''\<newline>'' @
     ''## 4. Content & Creative Strategy\<newline>'' @
     ''(What content we'll create and why)\<newline>'' @
     ''\<newline>'' @
     ''## 5. Go-to-Market Timeline\<newline>'' @
     ''(Aligned with product development milestones from CTO)\<newline>'' @
     ''\<newline>'' @
     ''## 6. Budget Allocation\<newline>'' @
     ''(How to allocate marketing budget effectively)\<newline>'' @
     ''\<newline>'' @
     ''## 7. Key Messaging & Copy\<newline>'' @
     ''(Sample taglines, value propositions, ad copy)\<newline>'' @
     ''\<newline>'' @
     ''## 8. Success Metrics & KPIs\<newline>'' @
     ''(Specific metrics for this business model)\<newline>'' @
     ''\<newline>'' @
     ''## 9. Launch Campaign Plan\<newline>'' @
     ''(Detailed plan for launch week/month)\<newline>'' @
     ''\<newline>'' @
     ''**IMPORTANT:** Reference specific points from both the Strategy and Technical analyses throughout your recommendations. Show how marketing connects business goals with technical capabilities!''\<close>

definition marketing_strategy_only_1 :: string where
  \<open>marketing_strategy_only_1 =
     ''Based on the business strategy below, create a marketing strategy:\<newline>'' @
     ''\<newline>'' @
     ''**BUSINESS STRATEGY:**\<newline>''\<close>

definition marketing_strategy_only_2 :: string where
  \<open>marketing_strategy_only_2 =
     ''\<newline>'' @
     ''\<newline>'' @
     ''**STARTUP IDEA:**\<newline>''\<close>

definition marketing_strategy_only_3 :: string where
  \<open>marketing_strategy_only_3 =
     ''\<newline>'' @
     ''\<newline>'' @
     ''Create comprehensive marketing strategy that aligns with the business goals above.''\<close>

definition marketing_standalone_1 :: string where
  \<open>marketing_standalone_1 =
     ''Create a comprehensive marketing strategy for:\<newline>'' @
     ''\<newline>'' @
     ''**STARTUP IDEA:**\<newline>''\<close>

definition marketing_standalone_2 :: string where
  \<open>marketing_standalone_2 =
     ''\<newline>'' @
     ''\<newline>'' @
     ''Include brand positioning, target audience, channels, content strategy, and go-to-market plan.''\<close>

text \<open>
  The local variable \<open>prompt\<close>, with the three branches of the source in their order.
\<close>

definition marketing_prompt :: "string \<Rightarrow> string option \<Rightarrow> string option \<Rightarrow> string" where
  "marketing_prompt startup_idea strategy_context technical_context =
     (if truthy strategy_context \<and> truthy technical_context then
        marketing_full_1 @ format_str strategy_context @
        marketing_full_2 @ format_str technical_context @
        marketing_full_3 @ startup_idea @
        marketing_full_4
      else if truthy strategy_context then
        marketing_strategy_only_1 @ format_str strategy_context @
        marketing_strategy_only_2 @ startup_idea @
        marketing_strategy_only_3
      else
        marketing_standalone_1 @ startup_idea @
        marketing_standalone_2)"

definition marketing_messages :: "string \<Rightarrow> string option \<Rightarrow> string option \<Rightarrow> message list" where
  "marketing_messages startup_idea strategy_context technical_context =
     [SystemMessage marketing_system_prompt,
      HumanMessage (marketing_prompt startup_idea strategy_context technical_context)]"

definition create_marketing_strategy ::
  "generator \<Rightarrow> string \<Rightarrow> string option \<Rightarrow> string option \<Rightarrow> event list
     \<Rightarrow> (error + string) \<times> event list" where
  "create_marketing_strategy gen startup_idea strategy_context technical_context log =
     llm_invoke gen MarketingAgent
       (marketing_messages startup_idea strategy_context technical_context)
       (log @ [Call_create_marketing_strategy startup_idea strategy_context technical_context])"

section \<open>workflows/collaboration.py\<close>

text \<open>
  \<open>AgentState\<close> is a \<open>TypedDict\<close>, at run time a plain dictionary from key to string.
  \<open>getitem\<close> is \<open>state[key]\<close>, which raises \<open>KeyError\<close> on a missing key; the assignment
  \<open>state[key] = v\<close> is the map update. The methods of the workflow class lose their
  leading underscore. What they print is left out.
\<close>

type_synonym AgentState = "string \<rightharpoonup> string"

definition getitem :: "AgentState \<Rightarrow> string \<Rightarrow> error + string" where
  "getitem state key = (case state key of None \<Rightarrow> Inl (KeyError key) | Some v \<Rightarrow> Inr v)"

definition run_strategy_agent ::
  "generator \<Rightarrow> AgentState \<Rightarrow> event list \<Rightarrow> (error + AgentState) \<times> event list" where
  "run_strategy_agent gen state log =
     (case getitem state ''startup_idea'' of
        Inl e \<Rightarrow> (Inl e, log)
      | Inr startup_idea \<Rightarrow>
         (case analyze_startup_idea gen startup_idea log of
            (Inl e, log') \<Rightarrow> (Inl e, log')
          | (Inr strategy_analysis, log') \<Rightarrow>
              (Inr (state(''strategy_analysis'' \<mapsto> strategy_analysis,
                          ''current_step'' \<mapsto> ''Strategy Complete'')), log')))"

definition run_technical_agent ::
  "generator \<Rightarrow> AgentState \<Rightarrow> event list \<Rightarrow> (error + AgentState) \<times> event list" where
  "run_technical_agent gen state log =
     (case getitem state ''startup_idea'' of
        Inl e \<Rightarrow> (Inl e, log)
      | Inr startup_idea \<Rightarrow>
     (case getitem state ''strategy_analysis'' of
        Inl e \<Rightarrow> (Inl e, log)
      | Inr strategy_context \<Rightarrow>
         (case analyze_technical_requirements gen startup_idea (Some strategy_context) log of
            (Inl e, log') \<Rightarrow> (Inl e, log')
          | (Inr technical_analysis, log') \<Rightarrow>
              (Inr (state(''technical_analysis'' \<mapsto> technical_analysis,
                          ''current_step'' \<mapsto> ''Technical Complete'')), log'))))"

definition run_marketing_agent ::
  "generator \<Rightarrow> AgentState \<Rightarrow> event list \<Rightarrow> (error + AgentState) \<times> event list" where
  "run_marketing_agent gen state log =
     (case getitem state ''startup_idea'' of
        Inl e \<Rightarrow> (Inl e, log)
      | Inr startup_idea \<Rightarrow>
     (case getitem state ''strategy_analysis'' of
        Inl e \<Rightarrow> (Inl e, log)
      | Inr strategy_context \<Rightarrow>
     (case getitem state ''technical_analysis'' of
        Inl e \<Rightarrow> (Inl e, log)
      | Inr technical_context \<Rightarrow>
         (case create_marketing_strategy gen startup_idea
                 (Some strategy_context) (Some technical_context) log of
            (Inl e, log') \<Rightarrow> (Inl e, log')
          | (Inr marketing_strategy, log') \<Rightarrow>
              (Inr (state(''marketing_strategy'' \<mapsto> marketing_strategy,
                          ''current_step'' \<mapsto> ''Marketing Complete'')), log')))))"

text \<open>
  The f-string of \<open>_compile_final_report\<close>, cut at the four places where an entry of the
  state is written: \<open>final_report_1\<close> is the text before \<open>{state["startup_idea"]}\<close>,
  \<open>final_report_2\<close> the text between it and \<open>{state["strategy_analysis"]}\<close>, and so on;
  \<open>final_report_5\<close> is the text after \<open>{state["marketing_strategy"]}\<close>.
\<close>

definition final_report_1 :: string where
  \<open>final_report_1 =
     ''\<newline>'' @
     ''# '' @ emoji_rocket @ '' COMPREHENSIVE STARTUP ANALYSIS\<newline>'' @
     ''## Generated by AI Co-Founder Team\<newline>'' @
     ''\<newline>'' @
     ''---\<newline>'' @
     ''\<newline>'' @
     ''## '' @ emoji_clipboard @ '' STARTUP IDEA\<newline>''\<close>

definition final_report_2 :: string where
  \<open>final_report_2 =
     ''\<newline>'' @
     ''\<newline>'' @
     ''---\<newline>'' @
     ''\<newline>'' @
     ''## '' @ emoji_direct_hit @ '' BUSINESS STRATEGY ANALYSIS\<newline>'' @
     ''### By Strategy Agent (CEO)\<newline>'' @
     ''\<newline>''\<close>

definition final_report_3 :: string where
  \<open>final_report_3 =
     ''\<newline>'' @
     ''\<newline>'' @
     ''---\<newline>'' @
     ''\<newline>'' @
     ''## '' @ emoji_personal_computer @ '' TECHNICAL ARCHITECTURE & PLAN\<newline>'' @
     ''### By Technical Agent (CTO)\<newline>'' @
     ''\<newline>''\<close>

definition final_report_4 :: string where
  \<open>final_report_4 =
     ''\<newline>'' @
     ''\<newline>'' @
     ''---\<newline>'' @
     ''\<newline>'' @
     ''## '' @ emoji_public_address_loudspeaker @ '' MARKETING STRATEGY & GO-TO-MARKET\<newline>'' @
     ''### By Marketing Agent (CMO)\<newline>'' @
     ''\<newline>''\<close>

definition final_report_5 :: string where
  \<open>final_report_5 =
     ''\<newline>'' @
     ''\<newline>'' @
     ''---\<newline>'' @
     ''\<newline>'' @
     ''## '' @ emoji_white_heavy_check_mark @ '' NEXT STEPS & ACTION ITEMS\<newline>'' @
     ''\<newline>'' @
     ''Based on the collaborative analysis above, here are the immediate priorities:\<newline>'' @
     ''\<newline>'' @
     ''1. **Week 1-2**: Validate assumptions with target customers (from Strategy)\<newline>'' @
     ''2. **Week 3-4**: Set up technical infrastructure (from Technical)\<newline>'' @
     ''3. **Week 4-6**: Begin pre-launch marketing activities (from Marketing)\<newline>'' @
     ''4. **Month 2**: Start MVP development\<newline>'' @
     ''5. **Month 3**: Beta testing and launch preparation\<newline>'' @
     ''\<newline>'' @
     ''---\<newline>'' @
     ''\<newline>'' @
     ''*This report was generated by a multi-agent AI system where each agent built upon the insights of previous agents to create a cohesive, unified strategy.*\<newline>''\<close>

definition final_report_text :: "string \<Rightarrow> string \<Rightarrow> string \<Rightarrow> string \<Rightarrow> string" where
  "final_report_text startup_idea strategy_analysis technical_analysis marketing_strategy =
     final_report_1 @ startup_idea @
     final_report_2 @ strategy_analysis @
     final_report_3 @ technical_analysis @
     final_report_4 @ marketing_strategy @
     final_report_5"

definition compile_final_report ::
  "generator \<Rightarrow> AgentState \<Rightarrow> event list \<Rightarrow> (error + AgentState) \<times> event list" where
  "compile_final_report gen state log =
     (case getitem state ''startup_idea'' of
        Inl e \<Rightarrow> (Inl e, log)
      | Inr startup_idea \<Rightarrow>
     (case getitem state ''strategy_analysis'' of
        Inl e \<Rightarrow> (Inl e, log)
      | Inr strategy_analysis \<Rightarrow>
     (case getitem state ''technical_analysis'' of
        Inl e \<Rightarrow> (Inl e, log)
      | Inr technical_analysis \<Rightarrow>
     (case getitem state ''marketing_strategy'' of
        Inl e \<Rightarrow> (Inl e, log)
      | Inr marketing_strategy \<Rightarrow>
         (Inr (state(''final_report'' \<mapsto>
                       final_report_text startup_idea strategy_analysis
                         technical_analysis marketing_strategy,
                     ''current_step'' \<mapsto> ''Complete'')), log)))))"

subsection \<open>The compiled graph\<close>

text \<open>
  \<open>_build_workflow\<close> adds four nodes, makes \<open>strategy_agent\<close> the entry point and adds
  one edge out of every node. The graph library is not part of the repository; its
  \<open>invoke\<close> is modelled as follows. Starting at the entry point with the input state, the
  function of the current node is called on the state, the mapping it returns is written
  over the state, and the run moves along the node's edge, until \<open>END\<close> is reached and
  the state is returned. An exception raised by a node function ends the run and is
  raised to the caller. Besides the outcome, \<open>run_graph\<close> gives the list of the states after
  every node that completed, for the statements about intermediate states.
\<close>

datatype node = strategy_agent | technical_agent | marketing_agent | compile_report | END

definition entry_point :: node where
  "entry_point = strategy_agent"

fun edge :: "node \<Rightarrow> node" where
  "edge strategy_agent = technical_agent"
| "edge technical_agent = marketing_agent"
| "edge marketing_agent = compile_report"
| "edge compile_report = END"
| "edge END = END"

fun node_function ::
  "generator \<Rightarrow> node \<Rightarrow> AgentState \<Rightarrow> event list \<Rightarrow> (error + AgentState) \<times> event list" where
  "node_function gen strategy_agent = run_strategy_agent gen"
| "node_function gen technical_agent = run_technical_agent gen"
| "node_function gen marketing_agent = run_marketing_agent gen"
| "node_function gen compile_report = compile_final_report gen"
| "node_function gen END = (\<lambda>state log. (Inr state, log))"

fun steps_to_end :: "node \<Rightarrow> nat" where
  "steps_to_end strategy_agent = 4"
| "steps_to_end technical_agent = 3"
| "steps_to_end marketing_agent = 2"
| "steps_to_end compile_report = 1"
| "steps_to_end END = 0"

function run_graph ::
  "generator \<Rightarrow> node \<Rightarrow> AgentState \<Rightarrow> event list
     \<Rightarrow> (error + AgentState) \<times> AgentState list \<times> event list" where
  "run_graph gen n state log =
     (if n = END then (Inr state, [], log)
      else
        (case node_function gen n state log of
           (Inl e, log') \<Rightarrow> (Inl e, [], log')
         | (Inr out, log') \<Rightarrow>
             (case run_graph gen (edge n) (state ++ out) log' of
                (r, states, log'') \<Rightarrow> (r, (state ++ out) # states, log''))))"
  by pat_completeness auto
termination
proof (relation "measure (\<lambda>(gen, n, state, log). steps_to_end n)", goal_cases)
  case 1
  show ?case by simp
next
  case (2 gen n)
  then show ?case by (cases n) simp_all
qed

definition initial_state :: "string \<Rightarrow> AgentState" where
  "initial_state startup_idea =
     [''startup_idea'' \<mapsto> startup_idea,
      ''strategy_analysis'' \<mapsto> '''',
      ''technical_analysis'' \<mapsto> '''',
      ''marketing_strategy'' \<mapsto> '''',
      ''final_report'' \<mapsto> '''',
      ''current_step'' \<mapsto> ''Starting'']"

text \<open>
  \<open>analyze_startup\<close>: the outcome is the returned dictionary or the exception raised;
  the second component lists the intermediate states, the third the calls made.
\<close>

definition analyze_startup ::
  "generator \<Rightarrow> string \<Rightarrow> (error + AgentState) \<times> AgentState list \<times> event list" where
  "analyze_startup gen startup_idea = run_graph gen entry_point (initial_state startup_idea) []"

declare run_graph.simps [simp del]

section \<open>Notions used in the statements\<close>

text \<open>
  The states a run passes through when the three generator calls return \<open>S\<close>, \<open>T\<close> and
  \<open>M\<close>: they are shown below to be the states of \<open>analyze_startup\<close>.
\<close>

definition after_strategy :: "string \<Rightarrow> string \<Rightarrow> AgentState" where
  "after_strategy idea S =
     (initial_state idea)(''strategy_analysis'' \<mapsto> S,
                          ''current_step'' \<mapsto> ''Strategy Complete'')"

definition after_technical :: "string \<Rightarrow> string \<Rightarrow> string \<Rightarrow> AgentState" where
  "after_technical idea S T =
     (after_strategy idea S)(''technical_analysis'' \<mapsto> T,
                             ''current_step'' \<mapsto> ''Technical Complete'')"

definition after_marketing :: "string \<Rightarrow> string \<Rightarrow> string \<Rightarrow> string \<Rightarrow> AgentState" where
  "after_marketing idea S T M =
     (after_technical idea S T)(''marketing_strategy'' \<mapsto> M,
                                ''current_step'' \<mapsto> ''Marketing Complete'')"

definition after_compile :: "string \<Rightarrow> string \<Rightarrow> string \<Rightarrow> string \<Rightarrow> AgentState" where
  "after_compile idea S T M =
     (after_marketing idea S T M)(''final_report'' \<mapsto> final_report_text idea S T M,
                                  ''current_step'' \<mapsto> ''Complete'')"

text \<open>The events of the three stages.\<close>

definition strategy_events :: "string \<Rightarrow> event list" where
  "strategy_events idea =
     [Call_analyze_startup_idea idea, LLM_invoke StrategyAgent (strategy_messages idea)]"

definition technical_events :: "string \<Rightarrow> string \<Rightarrow> event list" where
  "technical_events idea S =
     [Call_analyze_technical_requirements idea (Some S),
      LLM_invoke TechnicalAgent (technical_messages idea (Some S))]"

definition marketing_events :: "string \<Rightarrow> string \<Rightarrow> string \<Rightarrow> event list" where
  "marketing_events idea S T =
     [Call_create_marketing_strategy idea (Some S) (Some T),
      LLM_invoke MarketingAgent (marketing_messages idea (Some S) (Some T))]"

text \<open>
  Three stubbed generators: one answers \<open>S\<close>, \<open>T\<close> and \<open>M\<close> for the three agents, one
  fails for the technical agent, one answers the empty string for the strategy agent.
\<close>

definition stub_generator :: generator where
  "stub_generator a messages =
     (case a of
        StrategyAgent \<Rightarrow> Inr ''S''
      | TechnicalAgent \<Rightarrow> Inr ''T''
      | MarketingAgent \<Rightarrow> Inr ''M'')"

definition failing_technical :: generator where
  "failing_technical a messages =
     (case a of
        StrategyAgent \<Rightarrow> Inr ''S''
      | TechnicalAgent \<Rightarrow> Inl (GenerationFailure ''timeout'')
      | MarketingAgent \<Rightarrow> Inr ''M'')"

definition empty_strategy :: generator where
  "empty_strategy a messages =
     (case a of
        StrategyAgent \<Rightarrow> Inr ''''
      | TechnicalAgent \<Rightarrow> Inr ''T''
      | MarketingAgent \<Rightarrow> Inr ''M'')"

text \<open>
  \<open>write_once i key states\<close>: in the list of states of a run, the entry \<open>key\<close> is the empty
  string in the first \<open>i\<close> states and has one and the same value from state \<open>i\<close> on.
\<close>

definition write_once :: "nat \<Rightarrow> string \<Rightarrow> AgentState list \<Rightarrow> bool" where
  "write_once i key states =
     ((\<forall>s \<in> set (take i states). s key = Some '''') \<and>
      (\<forall>s \<in> set (drop i states). s key = (states ! i) key))"

text \<open>The number of positions of a string at which \<open>needle\<close> starts.\<close>

fun occurrences :: "string \<Rightarrow> string \<Rightarrow> nat" where
  "occurrences needle [] = (if needle = [] then 1 else 0)"
| "occurrences needle (c # cs) =
     (if prefix needle (c # cs) then 1 else 0) + occurrences needle cs"

section \<open>The nodes, one step at a time\<close>

lemma map_add_same: "m ++ m = m"
  by (simp add: map_add_def fun_eq_iff split: option.split)

lemma getitem_Some: "state key = Some v \<Longrightarrow> getitem state key = Inr v"
  by (simp add: getitem_def)

lemma run_strategy_agent_step:
  assumes "state ''startup_idea'' = Some idea"
  shows "run_strategy_agent gen state log =
    (case gen StrategyAgent (strategy_messages idea) of
       Inl e \<Rightarrow> (Inl e, log @ strategy_events idea)
     | Inr S \<Rightarrow> (Inr (state(''strategy_analysis'' \<mapsto> S, ''current_step'' \<mapsto> ''Strategy Complete'')),
                 log @ strategy_events idea))"
  using assms
  by (simp add: run_strategy_agent_def getitem_Some analyze_startup_idea_def llm_invoke_def
      strategy_events_def split: sum.split)

lemma run_technical_agent_step:
  assumes "state ''startup_idea'' = Some idea" and "state ''strategy_analysis'' = Some S"
  shows "run_technical_agent gen state log =
    (case gen TechnicalAgent (technical_messages idea (Some S)) of
       Inl e \<Rightarrow> (Inl e, log @ technical_events idea S)
     | Inr T \<Rightarrow> (Inr (state(''technical_analysis'' \<mapsto> T, ''current_step'' \<mapsto> ''Technical Complete'')),
                 log @ technical_events idea S))"
  using assms
  by (simp add: run_technical_agent_def getitem_Some analyze_technical_requirements_def
      llm_invoke_def technical_events_def split: sum.split)

lemma run_marketing_agent_step:
  assumes "state ''startup_idea'' = Some idea" and "state ''strategy_analysis'' = Some S"
    and "state ''technical_analysis'' = Some T"
  shows "run_marketing_agent gen state log =
    (case gen MarketingAgent (marketing_messages idea (Some S) (Some T)) of
       Inl e \<Rightarrow> (Inl e, log @ marketing_events idea S T)
     | Inr M \<Rightarrow> (Inr (state(''marketing_strategy'' \<mapsto> M, ''current_step'' \<mapsto> ''Marketing Complete'')),
                 log @ marketing_events idea S T))"
  using assms
  by (simp add: run_marketing_agent_def getitem_Some create_marketing_strategy_def
      llm_invoke_def marketing_events_def split: sum.split)

lemma compile_final_report_step:
  assumes "state ''startup_idea'' = Some idea" and "state ''strategy_analysis'' = Some S"
    and "state ''technical_analysis'' = Some T" and "state ''marketing_strategy'' = Some M"
  shows "compile_final_report gen state log =
    (Inr (state(''final_report'' \<mapsto> final_report_text idea S T M, ''current_step'' \<mapsto> ''Complete'')), log)"
  using assms by (simp add: compile_final_report_def getitem_Some)

lemma after_lookups:
  "after_strategy idea S ''startup_idea'' = Some idea"
  "after_strategy idea S ''strategy_analysis'' = Some S"
  "after_technical idea S T ''startup_idea'' = Some idea"
  "after_technical idea S T ''strategy_analysis'' = Some S"
  "after_technical idea S T ''technical_analysis'' = Some T"
  "after_marketing idea S T M ''startup_idea'' = Some idea"
  "after_marketing idea S T M ''strategy_analysis'' = Some S"
  "after_marketing idea S T M ''technical_analysis'' = Some T"
  "after_marketing idea S T M ''marketing_strategy'' = Some M"
  by (simp_all add: after_marketing_def after_technical_def after_strategy_def initial_state_def)

lemma map_add_upd2: "m ++ m(k \<mapsto> v, k' \<mapsto> v') = m(k \<mapsto> v, k' \<mapsto> v')"
  by (simp add: map_add_same)

lemma run_graph_compile:
  "run_graph gen compile_report (after_marketing idea S T M) log =
     (Inr (after_compile idea S T M), [after_compile idea S T M], log)"
proof -
  have step: "compile_final_report gen (after_marketing idea S T M) log =
      (Inr (after_compile idea S T M), log)"
    by (simp add: compile_final_report_step [OF after_lookups(6-9)] after_compile_def)
  have merge: "after_marketing idea S T M ++ after_compile idea S T M = after_compile idea S T M"
    unfolding after_compile_def by (rule map_add_upd2)
  show ?thesis
    by (simp add: run_graph.simps [of _ compile_report] run_graph.simps [of _ END] step merge)
qed

lemma run_graph_marketing:
  "run_graph gen marketing_agent (after_technical idea S T) log =
     (case gen MarketingAgent (marketing_messages idea (Some S) (Some T)) of
        Inl e \<Rightarrow> (Inl e, [], log @ marketing_events idea S T)
      | Inr M \<Rightarrow> (Inr (after_compile idea S T M),
           [after_marketing idea S T M, after_compile idea S T M], log @ marketing_events idea S T))"
proof -
  have step: "run_marketing_agent gen (after_technical idea S T) log =
     (case gen MarketingAgent (marketing_messages idea (Some S) (Some T)) of
        Inl e \<Rightarrow> (Inl e, log @ marketing_events idea S T)
      | Inr M \<Rightarrow> (Inr (after_marketing idea S T M), log @ marketing_events idea S T))"
    by (simp add: run_marketing_agent_step [OF after_lookups(3-5)] after_marketing_def split: sum.split)
  have merge: "after_technical idea S T ++ after_marketing idea S T M = after_marketing idea S T M"
    for M unfolding after_marketing_def by (rule map_add_upd2)
  show ?thesis
    by (simp add: run_graph.simps [of _ marketing_agent] step merge run_graph_compile
        split: sum.split)
qed

lemma run_graph_technical:
  "run_graph gen technical_agent (after_strategy idea S) log =
     (case gen TechnicalAgent (technical_messages idea (Some S)) of
        Inl e \<Rightarrow> (Inl e, [], log @ technical_events idea S)
      | Inr T \<Rightarrow>
         (case gen MarketingAgent (marketing_messages idea (Some S) (Some T)) of
            Inl e \<Rightarrow> (Inl e, [after_technical idea S T],
                       log @ technical_events idea S @ marketing_events idea S T)
          | Inr M \<Rightarrow> (Inr (after_compile idea S T M),
               [after_technical idea S T, after_marketing idea S T M, after_compile idea S T M],
               log @ technical_events idea S @ marketing_events idea S T)))"
proof -
  have step: "run_technical_agent gen (after_strategy idea S) log =
     (case gen TechnicalAgent (technical_messages idea (Some S)) of
        Inl e \<Rightarrow> (Inl e, log @ technical_events idea S)
      | Inr T \<Rightarrow> (Inr (after_technical idea S T), log @ technical_events idea S))"
    by (simp add: run_technical_agent_step [OF after_lookups(1-2)] after_technical_def split: sum.split)
  have merge: "after_strategy idea S ++ after_technical idea S T = after_technical idea S T"
    for T unfolding after_technical_def by (rule map_add_upd2)
  show ?thesis
    by (simp add: run_graph.simps [of _ technical_agent] step merge run_graph_marketing
        split: sum.split)
qed

lemma analyze_startup_run:
  "analyze_startup gen idea =
     (case gen StrategyAgent (strategy_messages idea) of
        Inl e \<Rightarrow> (Inl e, [], strategy_events idea)
      | Inr S \<Rightarrow>
     (case gen TechnicalAgent (technical_messages idea (Some S)) of
        Inl e \<Rightarrow> (Inl e, [after_strategy idea S], strategy_events idea @ technical_events idea S)
      | Inr T \<Rightarrow>
     (case gen MarketingAgent (marketing_messages idea (Some S) (Some T)) of
        Inl e \<Rightarrow> (Inl e, [after_strategy idea S, after_technical idea S T],
                   strategy_events idea @ technical_events idea S @ marketing_events idea S T)
      | Inr M \<Rightarrow> (Inr (after_compile idea S T M),
           [after_strategy idea S, after_technical idea S T, after_marketing idea S T M,
            after_compile idea S T M],
           strategy_events idea @ technical_events idea S @ marketing_events idea S T))))"
proof -
  have idea: "initial_state idea ''startup_idea'' = Some idea"
    by (simp add: initial_state_def)
  have step: "run_strategy_agent gen (initial_state idea) [] =
     (case gen StrategyAgent (strategy_messages idea) of
        Inl e \<Rightarrow> (Inl e, strategy_events idea)
      | Inr S \<Rightarrow> (Inr (after_strategy idea S), strategy_events idea))"
    by (simp add: run_strategy_agent_step [of "initial_state idea", OF idea] after_strategy_def split: sum.split)
  have merge: "initial_state idea ++ after_strategy idea S = after_strategy idea S"
    for S unfolding after_strategy_def by (rule map_add_upd2)
  show ?thesis
    by (simp add: analyze_startup_def entry_point_def run_graph.simps [of _ strategy_agent]
        step merge run_graph_technical split: sum.split)
qed

lemma dom_after_compile:
  "dom (after_compile idea S T M) =
     {''startup_idea'', ''strategy_analysis'', ''technical_analysis'', ''marketing_strategy'',
      ''final_report'', ''current_step''}"
  by (auto simp add: after_compile_def after_marketing_def after_technical_def after_strategy_def
      initial_state_def split: if_splits)

lemma after_entries:
  "initial_state idea ''strategy_analysis'' = Some ''''"
  "initial_state idea ''technical_analysis'' = Some ''''"
  "initial_state idea ''marketing_strategy'' = Some ''''"
  "initial_state idea ''final_report'' = Some ''''"
  "after_strategy idea S ''technical_analysis'' = Some ''''"
  "after_strategy idea S ''marketing_strategy'' = Some ''''"
  "after_strategy idea S ''final_report'' = Some ''''"
  "after_technical idea S T ''marketing_strategy'' = Some ''''"
  "after_technical idea S T ''final_report'' = Some ''''"
  "after_marketing idea S T M ''final_report'' = Some ''''"
  "after_compile idea S T M ''startup_idea'' = Some idea"
  "after_compile idea S T M ''strategy_analysis'' = Some S"
  "after_compile idea S T M ''technical_analysis'' = Some T"
  "after_compile idea S T M ''marketing_strategy'' = Some M"
  "after_compile idea S T M ''final_report'' = Some (final_report_text idea S T M)"
  "after_compile idea S T M ''current_step'' = Some ''Complete''"
  by (simp_all add: after_compile_def after_marketing_def after_technical_def after_strategy_def
      initial_state_def)

text \<open>The two stubbed runs.\<close>

lemma stub_run:
  "analyze_startup stub_generator idea =
     (Inr (after_compile idea ''S'' ''T'' ''M''),
      [after_strategy idea ''S'', after_technical idea ''S'' ''T'',
       after_marketing idea ''S'' ''T'' ''M'', after_compile idea ''S'' ''T'' ''M''],
      strategy_events idea @ technical_events idea ''S'' @ marketing_events idea ''S'' ''T'')"
  by (simp add: analyze_startup_run stub_generator_def)

lemma failing_technical_run:
  "analyze_startup failing_technical idea =
     (Inl (GenerationFailure ''timeout''), [after_strategy idea ''S''],
      strategy_events idea @ technical_events idea ''S'')"
  by (simp add: analyze_startup_run failing_technical_def)

section \<open>The dictionary returned by a run\<close>

text \<open>
  Claim C1, as amended. For every idea, a successful call of \<open>analyze_startup\<close> returns
  the final state of the graph: a dictionary with exactly six keys, the four result keys
  \<open>strategy_analysis\<close>, \<open>technical_analysis\<close>, \<open>marketing_strategy\<close> and \<open>final_report\<close>
  and, besides them, \<open>startup_idea\<close> (the idea as given) and \<open>current_step\<close> (the marker
  \<open>Complete\<close>); every key is mapped to a string.
\<close>

theorem analyze_startup_result_keys:
  assumes "fst (analyze_startup gen idea) = Inr result"
  shows "dom result =
       {''startup_idea'', ''strategy_analysis'', ''technical_analysis'',
        ''marketing_strategy'', ''final_report'', ''current_step''}
     \<and> result ''startup_idea'' = Some idea
     \<and> result ''current_step'' = Some ''Complete''"
proof -
  from assms obtain S T M where "result = after_compile idea S T M"
    by (auto simp add: analyze_startup_run split: sum.splits)
  then show ?thesis
    by (simp add: dom_after_compile after_entries)
qed

theorem analyze_startup_result_keys_witness:
  "fst (analyze_startup stub_generator ''X'') = Inr (after_compile ''X'' ''S'' ''T'' ''M'')
   \<and> dom (after_compile ''X'' ''S'' ''T'' ''M'') =
       {''startup_idea'', ''strategy_analysis'', ''technical_analysis'',
        ''marketing_strategy'', ''final_report'', ''current_step''}
   \<and> after_compile ''X'' ''S'' ''T'' ''M'' ''startup_idea'' = Some ''X''"
proof -
  have run: "fst (analyze_startup stub_generator ''X'') = Inr (after_compile ''X'' ''S'' ''T'' ''M'')"
    by (simp add: stub_run)
  from analyze_startup_result_keys [OF run] run show ?thesis
    by simp
qed

text \<open>
  Claim C1 as it is written asks for exactly four keys and no other. The run with the
  stubbed generator on the idea \<open>X\<close> succeeds and the dictionary it returns has the key
  \<open>startup_idea\<close>, so its keys are not the four.
\<close>

theorem analyze_startup_four_keys_counterexample:
  "\<not> isl (fst (analyze_startup stub_generator ''X''))
   \<and> ''startup_idea'' \<in> dom (projr (fst (analyze_startup stub_generator ''X'')))
   \<and> dom (projr (fst (analyze_startup stub_generator ''X''))) \<noteq>
       {''strategy_analysis'', ''technical_analysis'', ''marketing_strategy'', ''final_report''}"
proof -
  have isin: "''startup_idea'' \<in> dom (projr (fst (analyze_startup stub_generator ''X'')))"
    by (simp add: stub_run dom_after_compile)
  moreover have "''startup_idea'' \<notin>
      {''strategy_analysis'', ''technical_analysis'', ''marketing_strategy'', ''final_report''}"
    by simp
  ultimately have "dom (projr (fst (analyze_startup stub_generator ''X''))) \<noteq>
      {''strategy_analysis'', ''technical_analysis'', ''marketing_strategy'', ''final_report''}"
    by metis
  with isin show ?thesis
    by (simp add: stub_run)
qed

section \<open>Failure of a stage\<close>

text \<open>
  An exception of a generator call is what the run raises, and the failed call is the last
  thing the run did: no stage and no part of the graph catches it.
\<close>

lemma errors_propagate:
  assumes "LLM_invoke a messages \<in> set (snd (snd (analyze_startup gen idea)))"
    and "gen a messages = Inl e"
  shows "fst (analyze_startup gen idea) = Inl e
     \<and> last (snd (snd (analyze_startup gen idea))) = LLM_invoke a messages"
  using assms
  by (auto simp add: analyze_startup_run strategy_events_def technical_events_def
      marketing_events_def split: sum.splits)

text \<open>
  Claim C3. If the strategy stage returned \<open>S\<close> and the generator call of the technical
  stage fails with \<open>e\<close>, the run ends with the failure \<open>e\<close> itself. The calls made are those
  of the strategy stage and of the technical stage and nothing after the failed call: the
  generator of the marketing agent is never invoked and \<open>create_marketing_strategy\<close> is
  never called. In every state of the run the entries \<open>marketing_strategy\<close> and
  \<open>final_report\<close> are still empty, and no dictionary is returned.
\<close>

theorem technical_failure_aborts_run:
  assumes "gen StrategyAgent (strategy_messages idea) = Inr S"
    and "gen TechnicalAgent (technical_messages idea (Some S)) = Inl e"
  shows "\<exists>states log. analyze_startup gen idea = (Inl e, states, log)
     \<and> log = [Call_analyze_startup_idea idea,
              LLM_invoke StrategyAgent (strategy_messages idea),
              Call_analyze_technical_requirements idea (Some S),
              LLM_invoke TechnicalAgent (technical_messages idea (Some S))]
     \<and> (\<forall>messages. LLM_invoke MarketingAgent messages \<notin> set log)
     \<and> (\<forall>i s t. Call_create_marketing_strategy i s t \<notin> set log)
     \<and> (\<forall>state \<in> set (initial_state idea # states).
           state ''marketing_strategy'' = Some '''' \<and> state ''final_report'' = Some '''')"
  using assms
  by (simp add: analyze_startup_run strategy_events_def technical_events_def
      after_entries)

theorem technical_failure_aborts_run_witness:
  "failing_technical StrategyAgent (strategy_messages ''X'') = Inr ''S''
   \<and> failing_technical TechnicalAgent (technical_messages ''X'' (Some ''S'')) =
       Inl (GenerationFailure ''timeout'')
   \<and> fst (analyze_startup failing_technical ''X'') = Inl (GenerationFailure ''timeout'')
   \<and> snd (snd (analyze_startup failing_technical ''X'')) =
       [Call_analyze_startup_idea ''X'', LLM_invoke StrategyAgent (strategy_messages ''X''),
        Call_analyze_technical_requirements ''X'' (Some ''S''),
        LLM_invoke TechnicalAgent (technical_messages ''X'' (Some ''S''))]"
proof -
  have 1: "failing_technical StrategyAgent (strategy_messages ''X'') = Inr ''S''"
    by (simp add: failing_technical_def)
  have 2: "failing_technical TechnicalAgent (technical_messages ''X'' (Some ''S'')) =
       Inl (GenerationFailure ''timeout'')"
    by (simp add: failing_technical_def)
  from technical_failure_aborts_run [OF 1 2] 1 2 show ?thesis
    by auto
qed

section \<open>What the stages are given\<close>

text \<open>
  Claim C4. In every successful run, with \<open>S\<close>, \<open>T\<close> and \<open>M\<close> the outputs of the three
  stages (the entries of the returned dictionary), the calls made are, in this order:
  \<open>analyze_startup_idea\<close> with the idea; \<open>analyze_technical_requirements\<close> with the idea
  and \<open>S\<close> as its strategy context and nothing else; \<open>create_marketing_strategy\<close> with the
  idea, \<open>S\<close> as strategy context and \<open>T\<close> as technical context; each followed by the one
  generator call of its agent.
\<close>

theorem successful_run_contexts:
  assumes "fst (analyze_startup gen idea) = Inr result"
  shows "\<exists>S T M.
       gen StrategyAgent (strategy_messages idea) = Inr S
     \<and> gen TechnicalAgent (technical_messages idea (Some S)) = Inr T
     \<and> gen MarketingAgent (marketing_messages idea (Some S) (Some T)) = Inr M
     \<and> result ''strategy_analysis'' = Some S
     \<and> result ''technical_analysis'' = Some T
     \<and> result ''marketing_strategy'' = Some M
     \<and> snd (snd (analyze_startup gen idea)) =
         [Call_analyze_startup_idea idea,
          LLM_invoke StrategyAgent (strategy_messages idea),
          Call_analyze_technical_requirements idea (Some S),
          LLM_invoke TechnicalAgent (technical_messages idea (Some S)),
          Call_create_marketing_strategy idea (Some S) (Some T),
          LLM_invoke MarketingAgent (marketing_messages idea (Some S) (Some T))]"
  using assms
  by (auto simp add: analyze_startup_run strategy_events_def technical_events_def
      marketing_events_def after_entries split: sum.splits)

theorem successful_run_contexts_witness:
  "fst (analyze_startup stub_generator ''X'') = Inr (after_compile ''X'' ''S'' ''T'' ''M'')
   \<and> snd (snd (analyze_startup stub_generator ''X'')) =
         [Call_analyze_startup_idea ''X'',
          LLM_invoke StrategyAgent (strategy_messages ''X''),
          Call_analyze_technical_requirements ''X'' (Some ''S''),
          LLM_invoke TechnicalAgent (technical_messages ''X'' (Some ''S'')),
          Call_create_marketing_strategy ''X'' (Some ''S'') (Some ''T''),
          LLM_invoke MarketingAgent (marketing_messages ''X'' (Some ''S'') (Some ''T''))]"
proof -
  have run: "fst (analyze_startup stub_generator ''X'') = Inr (after_compile ''X'' ''S'' ''T'' ''M'')"
    by (simp add: stub_run)
  from successful_run_contexts [OF run] run show ?thesis
    by (auto simp add: stub_generator_def)
qed

section \<open>The entries of the shared state\<close>

text \<open>
  Claim C8. For every run, failed or not, with the states of the run listed from the
  initial one on: \<open>strategy_analysis\<close> is empty in the initial state and keeps, in every
  later state, the value it has after the strategy node; \<open>technical_analysis\<close> is empty in
  the first two states and keeps its value from the third on; \<open>marketing_strategy\<close> is
  empty in the first three and \<open>final_report\<close> in the first four, and each keeps its value
  from then on. A successful run has gone through the four nodes and returns its last
  state.
\<close>

theorem entries_written_once:
  "case analyze_startup gen idea of
     (outcome, states, log) \<Rightarrow>
        write_once 1 ''strategy_analysis'' (initial_state idea # states)
      \<and> write_once 2 ''technical_analysis'' (initial_state idea # states)
      \<and> write_once 3 ''marketing_strategy'' (initial_state idea # states)
      \<and> write_once 4 ''final_report'' (initial_state idea # states)
      \<and> (\<forall>result. outcome = Inr result \<longrightarrow> length states = 4 \<and> last states = result)"
  by (simp add: analyze_startup_run write_once_def after_lookups after_entries
      split: sum.split)

theorem entries_written_once_witness:
  "write_once 1 ''strategy_analysis''
     (initial_state ''X'' # fst (snd (analyze_startup stub_generator ''X'')))
   \<and> write_once 3 ''marketing_strategy''
     (initial_state ''X'' # fst (snd (analyze_startup stub_generator ''X'')))
   \<and> length (fst (snd (analyze_startup stub_generator ''X''))) = 4
   \<and> map (\<lambda>s. s ''strategy_analysis'')
       (initial_state ''X'' # fst (snd (analyze_startup stub_generator ''X'')))
       = [Some '''', Some ''S'', Some ''S'', Some ''S'', Some ''S'']
   \<and> map (\<lambda>s. s ''marketing_strategy'')
       (initial_state ''X'' # fst (snd (analyze_startup stub_generator ''X'')))
       = [Some '''', Some '''', Some '''', Some ''M'', Some ''M'']"
  using entries_written_once [where gen = stub_generator and idea = "''X''"]
  by (simp add: stub_run after_lookups after_entries)

text \<open>Every node function returns the entry \<open>startup_idea\<close> as it received it.\<close>

lemma node_function_frame:
  assumes "node_function gen n state log = (Inr out, log')"
  shows "out ''startup_idea'' = state ''startup_idea''"
proof (cases n)
  case strategy_agent
  with assms show ?thesis
    by (auto simp add: run_strategy_agent_def split: sum.splits prod.splits)
next
  case technical_agent
  with assms show ?thesis
    by (auto simp add: run_technical_agent_def split: sum.splits prod.splits)
next
  case marketing_agent
  with assms show ?thesis
    by (auto simp add: run_marketing_agent_def split: sum.splits prod.splits)
next
  case compile_report
  with assms show ?thesis
    by (auto simp add: compile_final_report_def split: sum.splits prod.splits)
next
  case END
  with assms show ?thesis by simp
qed

text \<open>
  Claim C9. Whatever node runs, on whatever state, the state it returns has the entry
  \<open>startup_idea\<close> it was given. In every run every state, from the initial one on, holds
  the idea supplied by the caller under \<open>startup_idea\<close>, and so does the dictionary
  returned by a successful run.
\<close>

theorem startup_idea_frame:
  "(node_function gen n state log = (Inr out, log') \<longrightarrow>
      out ''startup_idea'' = state ''startup_idea'')
   \<and> (\<forall>s \<in> set (initial_state idea # fst (snd (analyze_startup gen idea))).
        s ''startup_idea'' = Some idea)
   \<and> (fst (analyze_startup gen idea) = Inr result \<longrightarrow> result ''startup_idea'' = Some idea)"
proof (intro conjI impI)
  assume "node_function gen n state log = (Inr out, log')"
  then show "out ''startup_idea'' = state ''startup_idea''"
    by (rule node_function_frame)
next
  show "\<forall>s \<in> set (initial_state idea # fst (snd (analyze_startup gen idea))).
        s ''startup_idea'' = Some idea"
    by (simp add: analyze_startup_run after_lookups after_entries initial_state_def
        split: sum.split)
next
  assume "fst (analyze_startup gen idea) = Inr result"
  then show "result ''startup_idea'' = Some idea"
    by (auto simp add: analyze_startup_run after_entries split: sum.splits)
qed

theorem startup_idea_frame_witness:
  "node_function stub_generator strategy_agent (initial_state ''X'') [] =
     (Inr (after_strategy ''X'' ''S''), strategy_events ''X'')
   \<and> after_strategy ''X'' ''S'' ''startup_idea'' = initial_state ''X'' ''startup_idea''
   \<and> fst (analyze_startup stub_generator ''X'') = Inr (after_compile ''X'' ''S'' ''T'' ''M'')
   \<and> after_compile ''X'' ''S'' ''T'' ''M'' ''startup_idea'' = Some ''X''
   \<and> map (\<lambda>s. s ''startup_idea'')
       (initial_state ''X'' # fst (snd (analyze_startup stub_generator ''X'')))
       = [Some ''X'', Some ''X'', Some ''X'', Some ''X'', Some ''X'']"
proof -
  have idea: "initial_state ''X'' ''startup_idea'' = Some ''X''"
    by (simp add: initial_state_def)
  have step: "node_function stub_generator strategy_agent (initial_state ''X'') [] =
     (Inr (after_strategy ''X'' ''S''), strategy_events ''X'')"
    by (simp add: run_strategy_agent_step [of "initial_state ''X''", OF idea]
        stub_generator_def after_strategy_def)
  have run: "fst (analyze_startup stub_generator ''X'') = Inr (after_compile ''X'' ''S'' ''T'' ''M'')"
    by (simp add: stub_run)
  from startup_idea_frame [of stub_generator strategy_agent "initial_state ''X''" "[]"
      "after_strategy ''X'' ''S''" "strategy_events ''X''" "''X''"
      "after_compile ''X'' ''S'' ''T'' ''M''"] step run
  show ?thesis
    by (simp add: stub_run)
qed

section \<open>The compile step\<close>

text \<open>
  Claim C6. The compile step is deterministic, and more: on any two states that agree on
  the entries \<open>startup_idea\<close>, \<open>strategy_analysis\<close>, \<open>technical_analysis\<close> and
  \<open>marketing_strategy\<close>, whatever their other entries, whatever the generators at hand
  and whatever has been called before, it succeeds and writes the same string under
  \<open>final_report\<close>. It leaves the list of calls as it found it: no generator is invoked.
\<close>

theorem compile_final_report_deterministic:
  assumes "state1 ''startup_idea'' = Some idea" and "state2 ''startup_idea'' = Some idea"
    and "state1 ''strategy_analysis'' = Some A" and "state2 ''strategy_analysis'' = Some A"
    and "state1 ''technical_analysis'' = Some B" and "state2 ''technical_analysis'' = Some B"
    and "state1 ''marketing_strategy'' = Some C" and "state2 ''marketing_strategy'' = Some C"
  shows "\<exists>out1 out2 report.
       compile_final_report gen1 state1 log1 = (Inr out1, log1)
     \<and> compile_final_report gen2 state2 log2 = (Inr out2, log2)
     \<and> out1 ''final_report'' = Some report \<and> out2 ''final_report'' = Some report"
  using assms by (simp add: compile_final_report_step)

theorem compile_final_report_deterministic_witness:
  "map_sum id (\<lambda>out. out ''final_report'')
      (fst (compile_final_report stub_generator (after_marketing ''X'' ''S'' ''T'' ''M'') []))
   = map_sum id (\<lambda>out. out ''final_report'')
      (fst (compile_final_report failing_technical
         [''startup_idea'' \<mapsto> ''X'', ''strategy_analysis'' \<mapsto> ''S'',
          ''technical_analysis'' \<mapsto> ''T'', ''marketing_strategy'' \<mapsto> ''M'']
         (strategy_events ''X'')))
   \<and> \<not> isl (fst (compile_final_report stub_generator (after_marketing ''X'' ''S'' ''T'' ''M'') []))
   \<and> snd (compile_final_report stub_generator (after_marketing ''X'' ''S'' ''T'' ''M'') []) = []"
proof -
  let ?s2 = "[''startup_idea'' \<mapsto> ''X'', ''strategy_analysis'' \<mapsto> ''S'',
          ''technical_analysis'' \<mapsto> ''T'', ''marketing_strategy'' \<mapsto> ''M'']"
  have "\<exists>out1 out2 report.
       compile_final_report stub_generator (after_marketing ''X'' ''S'' ''T'' ''M'') []
         = (Inr out1, [])
     \<and> compile_final_report failing_technical ?s2 (strategy_events ''X'')
         = (Inr out2, strategy_events ''X'')
     \<and> out1 ''final_report'' = Some report \<and> out2 ''final_report'' = Some report"
    by (rule compile_final_report_deterministic [where idea = "''X''" and A = "''S''"
          and B = "''T''" and C = "''M''"]) (simp_all add: after_lookups)
  then show ?thesis
    by auto
qed

section \<open>Strings within strings\<close>

text \<open>
  A string without the character \<open>c\<close> occurs in \<open>a @ c # b\<close> only inside \<open>a\<close> or inside
  \<open>b\<close>. The templates put every interpolated value on lines of its own, so a label that
  has no line break occurs in a prompt only within one of its parts.
\<close>

lemma sublist_split_at:
  assumes "c \<notin> set l"
  shows "sublist l (a @ c # b) \<longleftrightarrow> sublist l a \<or> sublist l b"
proof
  assume "sublist l (a @ c # b)"
  then consider "sublist l a" | "sublist l (c # b)"
    | xs1 xs2 where "l = xs1 @ xs2" "suffix xs1 a" "prefix xs2 (c # b)"
    by (auto simp: sublist_append)
  then show "sublist l a \<or> sublist l b"
  proof cases
    case 1
    then show ?thesis ..
  next
    case 2
    then have "prefix l (c # b) \<or> sublist l b"
      by (simp add: sublist_Cons_right)
    moreover have "l = []" if "prefix l (c # b)"
      using that assms by (cases l) auto
    ultimately show ?thesis by auto
  next
    case 3
    have "xs2 = []"
      using 3 assms by (cases xs2) auto
    with 3 have "suffix l a" by simp
    then show ?thesis by (auto intro: suffix_imp_sublist)
  qed
next
  assume "sublist l a \<or> sublist l b"
  then show "sublist l (a @ c # b)"
    by (auto simp: sublist_append sublist_Cons_right)
qed

lemma sublist_between:
  assumes sep: "c \<notin> set l"
    and pre: "before \<noteq> []" "last before = c" "\<not> sublist l before"
    and post: "after \<noteq> []" "hd after = c" "\<not> sublist l after"
  shows "sublist l (before @ x @ after) \<longleftrightarrow> sublist l x"
proof -
  from pre obtain b' where b: "before = b' @ [c]"
    by (metis append_butlast_last_id)
  from post obtain a' where a: "after = c # a'"
    by (cases after) auto
  have nb: "\<not> sublist l b'"
    using pre(3) b by (auto simp: sublist_append)
  have na: "\<not> sublist l a'"
    using post(3) a by (auto simp: sublist_Cons_right)
  have "before @ x @ after = b' @ c # (x @ c # a')"
    by (simp add: a b)
  then show ?thesis
    using nb na by (simp add: sublist_split_at [OF sep])
qed

lemma sublist_around:
  assumes sep: "c \<notin> set l"
    and pre: "before \<noteq> []" "last before = c"
    and post: "after \<noteq> []" "hd after = c"
  shows "sublist l (before @ x @ after) \<longleftrightarrow>
     sublist l before \<or> sublist l x \<or> sublist l after"
proof -
  from pre obtain b' where b: "before = b' @ [c]"
    by (metis append_butlast_last_id)
  from post obtain a' where a: "after = c # a'"
    by (cases after) auto
  have "before @ x @ after = b' @ c # (x @ c # a')"
    by (simp add: a b)
  then have whole: "sublist l (before @ x @ after) \<longleftrightarrow>
      sublist l b' \<or> sublist l x \<or> sublist l a'"
    by (simp add: sublist_split_at [OF sep])
  have "sublist l (b' @ c # []) \<longleftrightarrow> sublist l b' \<or> sublist l []"
    by (rule sublist_split_at [OF sep])
  then have before: "sublist l before \<longleftrightarrow> sublist l b' \<or> l = []"
    by (simp add: b)
  have "sublist l ([] @ c # a') \<longleftrightarrow> sublist l [] \<or> sublist l a'"
    by (rule sublist_split_at [OF sep])
  then have after: "sublist l after \<longleftrightarrow> l = [] \<or> sublist l a'"
    by (simp add: a)
  show ?thesis
    unfolding whole before after by (cases "l = []") auto
qed

lemma suffix_dropI: "drop n xs = l \<Longrightarrow> suffix l xs"
  by (metis suffix_drop)

lemma sublist_take_dropI: "take k (drop n xs) = l \<Longrightarrow> sublist l xs"
  by (metis sublist_drop sublist_take sublist_order.order_trans)

lemma sublist_of_parts:
  "xs = before @ a @ b @ c @ after \<Longrightarrow> sublist (a @ b @ c) xs"
  by (metis append.assoc sublist_appendI)

section \<open>The prompts of the technical and the marketing agent\<close>

lemma technical_standalone_plain:
  "sublist ''BUSINESS STRATEGY'' (technical_prompt idea None) \<longleftrightarrow>
   sublist ''BUSINESS STRATEGY'' idea"
proof -
  have "\<not> sublist ''BUSINESS STRATEGY'' technical_standalone_1"
    by (simp add: technical_standalone_1_def sublist_code(3))
  moreover have "\<not> sublist ''BUSINESS STRATEGY'' technical_standalone_2"
    by (simp add: technical_standalone_2_def sublist_code(3))
  moreover have "technical_standalone_1 \<noteq> []" "last technical_standalone_1 = CHR ''\<newline>''"
    "technical_standalone_2 \<noteq> []" "hd technical_standalone_2 = CHR ''\<newline>''"
    by (simp_all add: technical_standalone_1_def technical_standalone_2_def)
  ultimately show ?thesis
    by (simp add: technical_prompt_def sublist_between [where c = "CHR ''\<newline>''"])
qed

lemma marketing_standalone_plain:
  "sublist ''BUSINESS STRATEGY'' (marketing_prompt idea None None) \<longleftrightarrow>
   sublist ''BUSINESS STRATEGY'' idea"
  "sublist ''TECHNICAL PLAN'' (marketing_prompt idea None None) \<longleftrightarrow>
   sublist ''TECHNICAL PLAN'' idea"
proof -
  have n: "\<not> sublist ''BUSINESS STRATEGY'' marketing_standalone_1"
     "\<not> sublist ''BUSINESS STRATEGY'' marketing_standalone_2"
     "\<not> sublist ''TECHNICAL PLAN'' marketing_standalone_1"
     "\<not> sublist ''TECHNICAL PLAN'' marketing_standalone_2"
    by (simp_all add: marketing_standalone_1_def marketing_standalone_2_def sublist_code(3))
  have e: "marketing_standalone_1 \<noteq> []" "last marketing_standalone_1 = CHR ''\<newline>''"
    "marketing_standalone_2 \<noteq> []" "hd marketing_standalone_2 = CHR ''\<newline>''"
    by (simp_all add: marketing_standalone_1_def marketing_standalone_2_def)
  show "sublist ''BUSINESS STRATEGY'' (marketing_prompt idea None None) \<longleftrightarrow>
   sublist ''BUSINESS STRATEGY'' idea"
    using n e by (simp add: marketing_prompt_def sublist_between [where c = "CHR ''\<newline>''"])
  show "sublist ''TECHNICAL PLAN'' (marketing_prompt idea None None) \<longleftrightarrow>
   sublist ''TECHNICAL PLAN'' idea"
    using n e by (simp add: marketing_prompt_def sublist_between [where c = "CHR ''\<newline>''"])
qed

lemma technical_collaborative_section:
  assumes "context \<noteq> []"
  shows "\<exists>before after. technical_prompt idea (Some context) =
     before @ ''**BUSINESS STRATEGY ANALYSIS:**\<newline>'' @ context @ ''\<newline>'' @ after"
proof -
  have "suffix ''**BUSINESS STRATEGY ANALYSIS:**\<newline>'' technical_collaborative_1"
    by (simp add: suffix_to_prefix technical_collaborative_1_def)
  then obtain before where 1:
    "technical_collaborative_1 = before @ ''**BUSINESS STRATEGY ANALYSIS:**\<newline>''"
    by (auto simp: suffix_def)
  have "prefix ''\<newline>'' technical_collaborative_2"
    by (simp add: technical_collaborative_2_def)
  then obtain rest where 2: "technical_collaborative_2 = ''\<newline>'' @ rest"
    by (auto simp: prefix_def)
  have "technical_prompt idea (Some context) =
      before @ ''**BUSINESS STRATEGY ANALYSIS:**\<newline>'' @ context @ ''\<newline>'' @
      (rest @ idea @ technical_collaborative_3)"
    using assms by (simp add: technical_prompt_def 1 2)
  then show ?thesis by blast
qed

lemma empty_context_prompts:
  "technical_prompt idea (Some '''') = technical_prompt idea None"
  "marketing_prompt idea (Some '''') technical_context = marketing_prompt idea None None"
  "marketing_prompt idea (Some strategy) (Some '''') = marketing_prompt idea (Some strategy) None"
  by (simp_all add: technical_prompt_def marketing_prompt_def)

lemma marketing_strategy_only_section:
  assumes "strategy \<noteq> []"
  shows "\<exists>before after. marketing_prompt idea (Some strategy) (Some '''') =
     before @ ''**BUSINESS STRATEGY:**\<newline>'' @ strategy @ ''\<newline>'' @ after"
proof -
  have "suffix ''**BUSINESS STRATEGY:**\<newline>'' marketing_strategy_only_1"
    by (rule suffix_dropI [where n = 68]) (simp add: marketing_strategy_only_1_def)
  then obtain before where 1:
    "marketing_strategy_only_1 = before @ ''**BUSINESS STRATEGY:**\<newline>''"
    by (auto simp: suffix_def)
  have "prefix ''\<newline>'' marketing_strategy_only_2"
    by (simp add: marketing_strategy_only_2_def)
  then obtain rest where 2: "marketing_strategy_only_2 = ''\<newline>'' @ rest"
    by (auto simp: prefix_def)
  have "marketing_prompt idea (Some strategy) (Some '''') =
      before @ ''**BUSINESS STRATEGY:**\<newline>'' @ strategy @ ''\<newline>'' @
      (rest @ idea @ marketing_strategy_only_3)"
    using assms by (simp add: marketing_prompt_def 1 2)
  then show ?thesis by blast
qed

lemma marketing_strategy_only_plain:
  assumes "strategy \<noteq> []"
  shows "sublist ''TECHNICAL PLAN'' (marketing_prompt idea (Some strategy) (Some '''')) \<longleftrightarrow>
     sublist ''TECHNICAL PLAN'' strategy \<or> sublist ''TECHNICAL PLAN'' idea"
proof -
  have n: "\<not> sublist ''TECHNICAL PLAN'' marketing_strategy_only_1"
    "\<not> sublist ''TECHNICAL PLAN'' marketing_strategy_only_2"
    "\<not> sublist ''TECHNICAL PLAN'' marketing_strategy_only_3"
    by (simp_all add: marketing_strategy_only_1_def marketing_strategy_only_2_def
        marketing_strategy_only_3_def sublist_code(3))
  have e: "marketing_strategy_only_1 \<noteq> []"
    "last marketing_strategy_only_1 = CHR ''\<newline>''"
    "marketing_strategy_only_2 \<noteq> []"
    "hd marketing_strategy_only_2 = CHR ''\<newline>''"
    "last marketing_strategy_only_2 = CHR ''\<newline>''"
    "marketing_strategy_only_3 \<noteq> []"
    "hd marketing_strategy_only_3 = CHR ''\<newline>''"
    by (simp_all add: marketing_strategy_only_1_def marketing_strategy_only_2_def
        marketing_strategy_only_3_def)
  have sep: "CHR ''\<newline>'' \<notin> set ''TECHNICAL PLAN''"
    by simp
  let ?rest = "marketing_strategy_only_2 @ idea @ marketing_strategy_only_3"
  have rest: "sublist ''TECHNICAL PLAN'' ?rest \<longleftrightarrow> sublist ''TECHNICAL PLAN'' idea"
    using n sublist_around [OF sep e(3) e(5) e(6) e(7), of idea] by simp
  have "?rest \<noteq> []" "hd ?rest = CHR ''\<newline>''"
    using e by simp_all
  from sublist_around [OF sep e(1) e(2) this, of strategy] n rest
  have "sublist ''TECHNICAL PLAN''
      (marketing_strategy_only_1 @ strategy @ ?rest) \<longleftrightarrow>
     sublist ''TECHNICAL PLAN'' strategy \<or> sublist ''TECHNICAL PLAN'' idea"
    by simp
  with assms show ?thesis
    by (simp add: marketing_prompt_def)
qed

text \<open>
  Claim C7, as amended. The instruction that \<open>analyze_technical_requirements\<close> sends to
  the generator is \<open>technical_prompt\<close> of its arguments. For every idea: without a strategy
  context the instruction has no \<open>BUSINESS STRATEGY\<close> section, that is, the text
  \<open>BUSINESS STRATEGY\<close> occurs in the instruction only where the idea itself has it; with
  a strategy context that is not the empty string, the instruction contains the line
  \<open>**BUSINESS STRATEGY ANALYSIS:**\<close> followed by the context, verbatim, on the lines
  after it.
\<close>

theorem technical_prompt_context_selection:
  "snd (analyze_technical_requirements gen idea strategy_context log) =
      log @ [Call_analyze_technical_requirements idea strategy_context,
             LLM_invoke TechnicalAgent
               [SystemMessage technical_system_prompt,
                HumanMessage (technical_prompt idea strategy_context)]]
   \<and> (sublist ''BUSINESS STRATEGY'' (technical_prompt idea None) \<longleftrightarrow>
        sublist ''BUSINESS STRATEGY'' idea)
   \<and> (strategy \<noteq> [] \<longrightarrow>
        (\<exists>before after. technical_prompt idea (Some strategy) =
           before @ ''**BUSINESS STRATEGY ANALYSIS:**\<newline>'' @ strategy @ ''\<newline>'' @ after))"
proof (intro conjI impI)
  show "snd (analyze_technical_requirements gen idea strategy_context log) =
      log @ [Call_analyze_technical_requirements idea strategy_context,
             LLM_invoke TechnicalAgent
               [SystemMessage technical_system_prompt,
                HumanMessage (technical_prompt idea strategy_context)]]"
    by (simp add: analyze_technical_requirements_def llm_invoke_def technical_messages_def)
next
  show "sublist ''BUSINESS STRATEGY'' (technical_prompt idea None) \<longleftrightarrow>
        sublist ''BUSINESS STRATEGY'' idea"
    by (rule technical_standalone_plain)
next
  assume "strategy \<noteq> []"
  then show "\<exists>before after. technical_prompt idea (Some strategy) =
      before @ ''**BUSINESS STRATEGY ANALYSIS:**\<newline>'' @ strategy @ ''\<newline>'' @ after"
    by (rule technical_collaborative_section)
qed

theorem technical_prompt_context_selection_witness:
  "''S'' \<noteq> []
   \<and> sublist (''**BUSINESS STRATEGY ANALYSIS:**\<newline>'' @ ''S'' @ ''\<newline>'')
        (technical_prompt ''X'' (Some ''S''))
   \<and> \<not> sublist ''BUSINESS STRATEGY'' (technical_prompt ''X'' None)"
proof -
  note inst = technical_prompt_context_selection [where idea = "''X''" and strategy = "''S''"]
  have ne: "''S'' \<noteq> []" by simp
  with inst obtain before after where "technical_prompt ''X'' (Some ''S'') =
      before @ ''**BUSINESS STRATEGY ANALYSIS:**\<newline>'' @ ''S'' @ ''\<newline>'' @ after"
    by blast
  then have "sublist (''**BUSINESS STRATEGY ANALYSIS:**\<newline>'' @ ''S'' @ ''\<newline>'')
        (technical_prompt ''X'' (Some ''S''))"
    by (rule sublist_of_parts)
  moreover have "\<not> sublist ''BUSINESS STRATEGY'' ''X''"
    by (simp add: sublist_code(3))
  with inst have "\<not> sublist ''BUSINESS STRATEGY'' (technical_prompt ''X'' None)"
    by blast
  ultimately show ?thesis by simp
qed

text \<open>
  Claim C7 as it is written promises the labeled section for every strategy context that
  is supplied. The empty string is a context the caller can supply (it is what the
  workflow passes on when the strategy generator returns nothing), and for it the
  instruction has no \<open>BUSINESS STRATEGY\<close> section.
\<close>

theorem technical_prompt_empty_context_counterexample:
  "\<not> sublist ''BUSINESS STRATEGY'' (technical_prompt ''X'' (Some ''''))"
proof -
  have "\<not> sublist ''BUSINESS STRATEGY'' ''X''"
    by (simp add: sublist_code(3))
  then show ?thesis
    by (simp add: empty_context_prompts technical_standalone_plain)
qed

text \<open>
  Claim C10, as amended. The template is chosen by the truthiness of the context
  arguments. If the strategy context is the empty string, the technical stage and the
  marketing stage (whatever its technical context) build the very instruction they build
  without any context, and the template of that instruction adds no \<open>BUSINESS STRATEGY\<close>
  and no \<open>TECHNICAL PLAN\<close> section. If only the technical context is the empty string,
  the marketing stage builds its strategy-only instruction, which does contain the
  section \<open>**BUSINESS STRATEGY:**\<close> with the strategy context and has no technical
  section: the text \<open>TECHNICAL PLAN\<close> occurs in it only where the strategy context or the
  idea has it. All this although the
  workflow did pass the output on: when the strategy generator returns the empty string,
  \<open>analyze_technical_requirements\<close> is called with that empty string as context and
  sends the messages of the call without context.
\<close>

theorem empty_context_selects_template:
  "technical_prompt idea (Some '''') = technical_prompt idea None
   \<and> marketing_prompt idea (Some '''') technical_context = marketing_prompt idea None None
   \<and> (sublist ''BUSINESS STRATEGY'' (technical_prompt idea None) \<longleftrightarrow>
        sublist ''BUSINESS STRATEGY'' idea)
   \<and> (sublist ''BUSINESS STRATEGY'' (marketing_prompt idea None None) \<longleftrightarrow>
        sublist ''BUSINESS STRATEGY'' idea)
   \<and> (sublist ''TECHNICAL PLAN'' (marketing_prompt idea None None) \<longleftrightarrow>
        sublist ''TECHNICAL PLAN'' idea)
   \<and> (strategy \<noteq> [] \<longrightarrow>
        marketing_prompt idea (Some strategy) (Some '''') =
          marketing_prompt idea (Some strategy) None
      \<and> (\<exists>before after. marketing_prompt idea (Some strategy) (Some '''') =
           before @ ''**BUSINESS STRATEGY:**\<newline>'' @ strategy @ ''\<newline>'' @ after)
      \<and> (sublist ''TECHNICAL PLAN'' (marketing_prompt idea (Some strategy) (Some '''')) \<longleftrightarrow>
           sublist ''TECHNICAL PLAN'' strategy \<or> sublist ''TECHNICAL PLAN'' idea))
   \<and> (gen StrategyAgent (strategy_messages idea) = Inr '''' \<longrightarrow>
        Call_analyze_technical_requirements idea (Some '''')
          \<in> set (snd (snd (analyze_startup gen idea)))
      \<and> LLM_invoke TechnicalAgent (technical_messages idea None)
          \<in> set (snd (snd (analyze_startup gen idea))))"
proof (intro conjI impI)
  assume "gen StrategyAgent (strategy_messages idea) = Inr ''''"
  moreover have "technical_messages idea (Some '''') = technical_messages idea None"
    by (simp add: technical_messages_def empty_context_prompts)
  ultimately show "Call_analyze_technical_requirements idea (Some '''')
          \<in> set (snd (snd (analyze_startup gen idea)))"
    and "LLM_invoke TechnicalAgent (technical_messages idea None)
          \<in> set (snd (snd (analyze_startup gen idea)))"
    by (simp_all add: analyze_startup_run technical_events_def split: sum.split)
next
  assume "strategy \<noteq> []"
  then show "\<exists>before after. marketing_prompt idea (Some strategy) (Some '''') =
      before @ ''**BUSINESS STRATEGY:**\<newline>'' @ strategy @ ''\<newline>'' @ after"
    by (rule marketing_strategy_only_section)
next
  assume "strategy \<noteq> []"
  then show "sublist ''TECHNICAL PLAN'' (marketing_prompt idea (Some strategy) (Some '''')) \<longleftrightarrow>
      sublist ''TECHNICAL PLAN'' strategy \<or> sublist ''TECHNICAL PLAN'' idea"
    by (rule marketing_strategy_only_plain)
qed (rule empty_context_prompts technical_standalone_plain marketing_standalone_plain)+

theorem empty_context_selects_template_witness:
  "''S'' \<noteq> []
   \<and> sublist (''**BUSINESS STRATEGY:**\<newline>'' @ ''S'' @ ''\<newline>'')
       (marketing_prompt ''X'' (Some ''S'') (Some ''''))
   \<and> \<not> sublist ''TECHNICAL PLAN'' (marketing_prompt ''X'' (Some ''S'') (Some ''''))
   \<and> empty_strategy StrategyAgent (strategy_messages ''X'') = Inr ''''
   \<and> Call_analyze_technical_requirements ''X'' (Some '''')
          \<in> set (snd (snd (analyze_startup empty_strategy ''X'')))
   \<and> LLM_invoke TechnicalAgent (technical_messages ''X'' None)
          \<in> set (snd (snd (analyze_startup empty_strategy ''X'')))
   \<and> \<not> sublist ''BUSINESS STRATEGY'' (marketing_prompt ''X'' (Some '''') (Some ''T''))"
proof -
  note inst = empty_context_selects_template [where idea = "''X''" and strategy = "''S''"
      and gen = empty_strategy and technical_context = "Some ''T''"]
  have e: "empty_strategy StrategyAgent (strategy_messages ''X'') = Inr ''''"
    by (simp add: empty_strategy_def)
  have ne: "''S'' \<noteq> []" by simp
  with inst obtain before after where "marketing_prompt ''X'' (Some ''S'') (Some '''') =
      before @ ''**BUSINESS STRATEGY:**\<newline>'' @ ''S'' @ ''\<newline>'' @ after"
    by blast
  then have "sublist (''**BUSINESS STRATEGY:**\<newline>'' @ ''S'' @ ''\<newline>'')
       (marketing_prompt ''X'' (Some ''S'') (Some ''''))"
    by (rule sublist_of_parts)
  moreover have "\<not> sublist ''BUSINESS STRATEGY'' ''X''"
    by (simp add: sublist_code(3))
  with inst have "\<not> sublist ''BUSINESS STRATEGY'' (marketing_prompt ''X'' (Some '''') (Some ''T''))"
    by simp
  moreover have "\<not> sublist ''TECHNICAL PLAN'' ''X''" "\<not> sublist ''TECHNICAL PLAN'' ''S''"
    by (simp_all add: sublist_code(3))
  with inst ne have "\<not> sublist ''TECHNICAL PLAN'' (marketing_prompt ''X'' (Some ''S'') (Some ''''))"
    by blast
  moreover from inst e have "Call_analyze_technical_requirements ''X'' (Some '''')
          \<in> set (snd (snd (analyze_startup empty_strategy ''X'')))"
    and "LLM_invoke TechnicalAgent (technical_messages ''X'' None)
          \<in> set (snd (snd (analyze_startup empty_strategy ''X'')))"
    by blast+
  ultimately show ?thesis using e by simp
qed

text \<open>
  Claim C10 as it is written says that a stage builds the standalone instruction, without
  any labeled section, whenever a prior context is the empty string. With the strategy
  context \<open>S\<close> and the empty string as technical context, the marketing stage builds an
  instruction that is not the standalone one and that contains the section
  \<open>**BUSINESS STRATEGY:**\<close> with \<open>S\<close>.
\<close>

theorem empty_technical_context_counterexample:
  "marketing_prompt ''X'' (Some ''S'') (Some '''') \<noteq> marketing_prompt ''X'' None None
   \<and> sublist (''**BUSINESS STRATEGY:**\<newline>'' @ ''S'' @ ''\<newline>'')
       (marketing_prompt ''X'' (Some ''S'') (Some ''''))"
proof -
  have "marketing_prompt ''X'' (Some ''S'') (Some '''') \<noteq> marketing_prompt ''X'' None None"
    by (simp add: marketing_prompt_def marketing_strategy_only_1_def marketing_standalone_1_def)
  moreover have "''S'' \<noteq> []" by simp
  then obtain before after where "marketing_prompt ''X'' (Some ''S'') (Some '''') =
      before @ ''**BUSINESS STRATEGY:**\<newline>'' @ ''S'' @ ''\<newline>'' @ after"
    using marketing_strategy_only_section [of "''S''" "''X''"] by blast
  then have "sublist (''**BUSINESS STRATEGY:**\<newline>'' @ ''S'' @ ''\<newline>'')
       (marketing_prompt ''X'' (Some ''S'') (Some ''''))"
    by (rule sublist_of_parts)
  ultimately show ?thesis by simp
qed

section \<open>The compiled report\<close>

lemma final_report_headers:
  "suffix (''## '' @ emoji_clipboard @ '' STARTUP IDEA\<newline>'') final_report_1"
  "suffix (''## '' @ emoji_direct_hit @ '' BUSINESS STRATEGY ANALYSIS\<newline>''
           @ ''### By Strategy Agent (CEO)\<newline>'' @ ''\<newline>'') final_report_2"
  "suffix (''## '' @ emoji_personal_computer @ '' TECHNICAL ARCHITECTURE & PLAN\<newline>''
           @ ''### By Technical Agent (CTO)\<newline>'' @ ''\<newline>'') final_report_3"
  "suffix (''## '' @ emoji_public_address_loudspeaker @ '' MARKETING STRATEGY & GO-TO-MARKET\<newline>''
           @ ''### By Marketing Agent (CMO)\<newline>'' @ ''\<newline>'') final_report_4"
proof -
  show "suffix (''## '' @ emoji_clipboard @ '' STARTUP IDEA\<newline>'') final_report_1"
    by (rule suffix_dropI [where n = 80])
       (simp add: final_report_1_def emoji_clipboard_def emoji_rocket_def)
  show "suffix (''## '' @ emoji_direct_hit @ '' BUSINESS STRATEGY ANALYSIS\<newline>''
           @ ''### By Strategy Agent (CEO)\<newline>'' @ ''\<newline>'') final_report_2"
    by (rule suffix_dropI [where n = 7]) (simp add: final_report_2_def emoji_direct_hit_def)
  show "suffix (''## '' @ emoji_personal_computer @ '' TECHNICAL ARCHITECTURE & PLAN\<newline>''
           @ ''### By Technical Agent (CTO)\<newline>'' @ ''\<newline>'') final_report_3"
    by (rule suffix_dropI [where n = 7])
       (simp add: final_report_3_def emoji_personal_computer_def)
  show "suffix (''## '' @ emoji_public_address_loudspeaker @ '' MARKETING STRATEGY & GO-TO-MARKET\<newline>''
           @ ''### By Marketing Agent (CMO)\<newline>'' @ ''\<newline>'') final_report_4"
    by (rule suffix_dropI [where n = 7])
       (simp add: final_report_4_def emoji_public_address_loudspeaker_def)
qed

lemma final_report_next_steps:
  "sublist (''## '' @ emoji_white_heavy_check_mark @ '' NEXT STEPS & ACTION ITEMS\<newline>'')
     final_report_5"
  "sublist
    (''1. **Week 1-2**: Validate assumptions with target customers (from Strategy)\<newline>'' @
     ''2. **Week 3-4**: Set up technical infrastructure (from Technical)\<newline>'' @
     ''3. **Week 4-6**: Begin pre-launch marketing activities (from Marketing)\<newline>'' @
     ''4. **Month 2**: Start MVP development\<newline>'' @
     ''5. **Month 3**: Beta testing and launch preparation\<newline>'')
     final_report_5"
proof -
  show "sublist (''## '' @ emoji_white_heavy_check_mark @ '' NEXT STEPS & ACTION ITEMS\<newline>'')
     final_report_5"
    by (rule sublist_take_dropI [where n = 7 and k = 33])
       (simp add: final_report_5_def emoji_white_heavy_check_mark_def)
  show "sublist
    (''1. **Week 1-2**: Validate assumptions with target customers (from Strategy)\<newline>'' @
     ''2. **Week 3-4**: Set up technical infrastructure (from Technical)\<newline>'' @
     ''3. **Week 4-6**: Begin pre-launch marketing activities (from Marketing)\<newline>'' @
     ''4. **Month 2**: Start MVP development\<newline>'' @
     ''5. **Month 3**: Beta testing and launch preparation\<newline>'')
     final_report_5"
    by (rule sublist_take_dropI [where n = 120 and k = 304])
       (simp add: final_report_5_def emoji_white_heavy_check_mark_def)
qed

text \<open>
  Claim C2. There are five fixed strings \<open>p0\<close>, \<open>p1\<close>, \<open>p2\<close>, \<open>p3\<close> and \<open>tail\<close> such that,
  for all strings \<open>idea\<close>, \<open>A\<close>, \<open>B\<close> and \<open>C\<close> and any state holding them, the compile step
  succeeds, invokes nothing and writes the report
  \<open>p0 @ idea @ p1 @ A @ p2 @ B @ p3 @ C @ tail\<close>: the four inputs verbatim and in this
  order. \<open>p0\<close> ends with the header line \<open>STARTUP IDEA\<close>, \<open>p1\<close> with the header
  \<open>BUSINESS STRATEGY ANALYSIS\<close> of the strategy agent, \<open>p2\<close> with the header
  \<open>TECHNICAL ARCHITECTURE & PLAN\<close> of the technical agent, \<open>p3\<close> with the header
  \<open>MARKETING STRATEGY & GO-TO-MARKET\<close> of the marketing agent, so every input stands
  directly under its own header. \<open>tail\<close>, which depends on no input, contains the header
  \<open>NEXT STEPS & ACTION ITEMS\<close> and the five numbered items.
\<close>

theorem compile_final_report_layout:
  "\<exists>p0 p1 p2 p3 tail.
      suffix (''## '' @ emoji_clipboard @ '' STARTUP IDEA\<newline>'') p0
    \<and> suffix (''## '' @ emoji_direct_hit @ '' BUSINESS STRATEGY ANALYSIS\<newline>''
           @ ''### By Strategy Agent (CEO)\<newline>'' @ ''\<newline>'') p1
    \<and> suffix (''## '' @ emoji_personal_computer @ '' TECHNICAL ARCHITECTURE & PLAN\<newline>''
           @ ''### By Technical Agent (CTO)\<newline>'' @ ''\<newline>'') p2
    \<and> suffix (''## '' @ emoji_public_address_loudspeaker @ '' MARKETING STRATEGY & GO-TO-MARKET\<newline>''
           @ ''### By Marketing Agent (CMO)\<newline>'' @ ''\<newline>'') p3
    \<and> sublist (''## '' @ emoji_white_heavy_check_mark @ '' NEXT STEPS & ACTION ITEMS\<newline>'') tail
    \<and> sublist
        (''1. **Week 1-2**: Validate assumptions with target customers (from Strategy)\<newline>'' @
         ''2. **Week 3-4**: Set up technical infrastructure (from Technical)\<newline>'' @
         ''3. **Week 4-6**: Begin pre-launch marketing activities (from Marketing)\<newline>'' @
         ''4. **Month 2**: Start MVP development\<newline>'' @
         ''5. **Month 3**: Beta testing and launch preparation\<newline>'') tail
    \<and> (\<forall>gen state log idea A B C.
          compile_final_report gen
            (state(''startup_idea'' \<mapsto> idea, ''strategy_analysis'' \<mapsto> A,
                   ''technical_analysis'' \<mapsto> B, ''marketing_strategy'' \<mapsto> C)) log =
          (Inr (state(''startup_idea'' \<mapsto> idea, ''strategy_analysis'' \<mapsto> A,
                      ''technical_analysis'' \<mapsto> B, ''marketing_strategy'' \<mapsto> C,
                      ''final_report'' \<mapsto> p0 @ idea @ p1 @ A @ p2 @ B @ p3 @ C @ tail,
                      ''current_step'' \<mapsto> ''Complete'')), log))"
proof -
  have "compile_final_report gen
            (state(''startup_idea'' \<mapsto> idea, ''strategy_analysis'' \<mapsto> A,
                   ''technical_analysis'' \<mapsto> B, ''marketing_strategy'' \<mapsto> C)) log =
          (Inr (state(''startup_idea'' \<mapsto> idea, ''strategy_analysis'' \<mapsto> A,
                      ''technical_analysis'' \<mapsto> B, ''marketing_strategy'' \<mapsto> C,
                      ''final_report'' \<mapsto> final_report_1 @ idea @ final_report_2 @ A @
                          final_report_3 @ B @ final_report_4 @ C @ final_report_5,
                      ''current_step'' \<mapsto> ''Complete'')), log)"
    for gen state log idea A B C
    by (simp add: compile_final_report_step [where idea = idea and S = A and T = B and M = C]
        final_report_text_def)
  then show ?thesis
    by (intro exI [of _ final_report_1] exI [of _ final_report_2] exI [of _ final_report_3]
        exI [of _ final_report_4] exI [of _ final_report_5] conjI allI
        final_report_headers final_report_next_steps)
qed

text \<open>
  The number of occurrences of a single character adds up over the parts of a string; the
  letters of the scenario are counted in the five fixed parts of the report.
\<close>

lemma occurrences_single_append:
  "occurrences [c] (xs @ ys) = occurrences [c] xs + occurrences [c] ys"
  by (induction xs) simp_all

lemma letters_in_template:
  "occurrences ''X'' final_report_1 = 0"
  "occurrences ''X'' final_report_2 = 0"
  "occurrences ''X'' final_report_3 = 0"
  "occurrences ''X'' final_report_4 = 0"
  "occurrences ''X'' final_report_5 = 1"
  "occurrences ''S'' final_report_1 = 5"
  "occurrences ''T'' final_report_1 = 5"
  "occurrences ''M'' final_report_1 = 1"
  by (simp_all add: final_report_1_def final_report_2_def
      final_report_3_def final_report_4_def final_report_5_def emoji_clipboard_def
      emoji_rocket_def emoji_direct_hit_def emoji_personal_computer_def
      emoji_public_address_loudspeaker_def emoji_white_heavy_check_mark_def)

lemma letters_in_fixed_text:
  "occurrences ''S'' final_report_2 = 7"
  "occurrences ''S'' final_report_3 = 0"
  "occurrences ''S'' final_report_4 = 1"
  "occurrences ''S'' final_report_5 = 6"
  "occurrences ''T'' final_report_2 = 2"
  "occurrences ''T'' final_report_3 = 5"
  "occurrences ''T'' final_report_4 = 5"
  "occurrences ''T'' final_report_5 = 6"
  "occurrences ''M'' final_report_2 = 0"
  "occurrences ''M'' final_report_3 = 0"
  "occurrences ''M'' final_report_4 = 4"
  "occurrences ''M'' final_report_5 = 5"
  by (simp_all add: final_report_2_def
      final_report_3_def final_report_4_def final_report_5_def
      emoji_direct_hit_def emoji_personal_computer_def
      emoji_public_address_loudspeaker_def emoji_white_heavy_check_mark_def)

text \<open>
  Claim C5, as amended. With the idea \<open>X\<close> and a generator that returns \<open>S\<close> for the
  strategy stage, \<open>T\<close> for the technical stage and \<open>M\<close> for the marketing stage, the run
  succeeds and its \<open>final_report\<close> is the fixed text of the report, the same for every
  input, with \<open>X\<close>, \<open>S\<close>, \<open>T\<close> and \<open>M\<close> written into it once each, in this order, each
  directly under its section header and before the fixed text with the five action items.
  The fixed text has these letters too, so each of them occurs in the report exactly once
  more than in the fixed text: \<open>X\<close> twice against once, \<open>S\<close> 20 times against 19, \<open>T\<close> 24
  times against 23, \<open>M\<close> 11 times against 10.
\<close>

theorem end_to_end_scenario:
  assumes "gen StrategyAgent (strategy_messages ''X'') = Inr ''S''"
    and "gen TechnicalAgent (technical_messages ''X'' (Some ''S'')) = Inr ''T''"
    and "gen MarketingAgent (marketing_messages ''X'' (Some ''S'') (Some ''T'')) = Inr ''M''"
  shows "\<exists>result report p0 p1 p2 p3 tail.
      fst (analyze_startup gen ''X'') = Inr result
    \<and> result ''final_report'' = Some report
    \<and> report = p0 @ ''X'' @ p1 @ ''S'' @ p2 @ ''T'' @ p3 @ ''M'' @ tail
    \<and> (\<forall>idea A B C.
          final_report_text idea A B C = p0 @ idea @ p1 @ A @ p2 @ B @ p3 @ C @ tail)
    \<and> suffix (''## '' @ emoji_clipboard @ '' STARTUP IDEA\<newline>'') p0
    \<and> suffix (''## '' @ emoji_direct_hit @ '' BUSINESS STRATEGY ANALYSIS\<newline>''
           @ ''### By Strategy Agent (CEO)\<newline>'' @ ''\<newline>'') p1
    \<and> suffix (''## '' @ emoji_personal_computer @ '' TECHNICAL ARCHITECTURE & PLAN\<newline>''
           @ ''### By Technical Agent (CTO)\<newline>'' @ ''\<newline>'') p2
    \<and> suffix (''## '' @ emoji_public_address_loudspeaker @ '' MARKETING STRATEGY & GO-TO-MARKET\<newline>''
           @ ''### By Marketing Agent (CMO)\<newline>'' @ ''\<newline>'') p3
    \<and> sublist
        (''1. **Week 1-2**: Validate assumptions with target customers (from Strategy)\<newline>'' @
         ''2. **Week 3-4**: Set up technical infrastructure (from Technical)\<newline>'' @
         ''3. **Week 4-6**: Begin pre-launch marketing activities (from Marketing)\<newline>'' @
         ''4. **Month 2**: Start MVP development\<newline>'' @
         ''5. **Month 3**: Beta testing and launch preparation\<newline>'') tail
    \<and> occurrences ''X'' (p0 @ p1 @ p2 @ p3 @ tail) = 1 \<and> occurrences ''X'' report = 2
    \<and> occurrences ''S'' (p0 @ p1 @ p2 @ p3 @ tail) = 19 \<and> occurrences ''S'' report = 20
    \<and> occurrences ''T'' (p0 @ p1 @ p2 @ p3 @ tail) = 23 \<and> occurrences ''T'' report = 24
    \<and> occurrences ''M'' (p0 @ p1 @ p2 @ p3 @ tail) = 10 \<and> occurrences ''M'' report = 11"
proof -
  let ?fixed = "final_report_1 @ final_report_2 @ final_report_3 @ final_report_4 @ final_report_5"
  let ?report = "final_report_1 @ ''X'' @ final_report_2 @ ''S'' @ final_report_3 @ ''T'' @
      final_report_4 @ ''M'' @ final_report_5"
  have run: "fst (analyze_startup gen ''X'') = Inr (after_compile ''X'' ''S'' ''T'' ''M'')"
    using assms by (simp add: analyze_startup_run)
  have entry: "after_compile ''X'' ''S'' ''T'' ''M'' ''final_report'' = Some ?report"
    by (simp add: after_entries final_report_text_def)
  have parts: "final_report_text idea A B C =
      final_report_1 @ idea @ final_report_2 @ A @ final_report_3 @ B @ final_report_4 @ C @
      final_report_5" for idea A B C
    by (simp add: final_report_text_def)
  have fixed: "occurrences ''X'' ?fixed = 1" "occurrences ''S'' ?fixed = 19"
    "occurrences ''T'' ?fixed = 23" "occurrences ''M'' ?fixed = 10"
    by (simp_all add: occurrences_single_append letters_in_template letters_in_fixed_text)
  have whole: "occurrences ''X'' ?report = 2" "occurrences ''S'' ?report = 20"
    "occurrences ''T'' ?report = 24" "occurrences ''M'' ?report = 11"
    by (simp_all add: occurrences_single_append letters_in_template letters_in_fixed_text)
  show ?thesis
    by (rule exI [of _ "after_compile ''X'' ''S'' ''T'' ''M''"], rule exI [of _ ?report],
        rule exI [of _ final_report_1], rule exI [of _ final_report_2],
        rule exI [of _ final_report_3], rule exI [of _ final_report_4],
        rule exI [of _ final_report_5])
       (intro conjI allI run entry refl parts final_report_headers
        final_report_next_steps(2) fixed whole)
qed

theorem end_to_end_scenario_witness:
  "stub_generator StrategyAgent (strategy_messages ''X'') = Inr ''S''
   \<and> stub_generator TechnicalAgent (technical_messages ''X'' (Some ''S'')) = Inr ''T''
   \<and> stub_generator MarketingAgent (marketing_messages ''X'' (Some ''S'') (Some ''T'')) = Inr ''M''
   \<and> (\<exists>p0 p1 p2 p3 tail.
        projr (fst (analyze_startup stub_generator ''X'')) ''final_report'' =
          Some (p0 @ ''X'' @ p1 @ ''S'' @ p2 @ ''T'' @ p3 @ ''M'' @ tail)
      \<and> occurrences ''X'' (p0 @ p1 @ p2 @ p3 @ tail) = 1
      \<and> occurrences ''X'' (p0 @ ''X'' @ p1 @ ''S'' @ p2 @ ''T'' @ p3 @ ''M'' @ tail) = 2)"
proof -
  have 1: "stub_generator StrategyAgent (strategy_messages ''X'') = Inr ''S''"
    and 2: "stub_generator TechnicalAgent (technical_messages ''X'' (Some ''S'')) = Inr ''T''"
    and 3: "stub_generator MarketingAgent (marketing_messages ''X'' (Some ''S'') (Some ''T''))
        = Inr ''M''"
    by (simp_all add: stub_generator_def)
  from end_to_end_scenario [OF 1 2 3] obtain result report p0 p1 p2 p3 tail where
    "fst (analyze_startup stub_generator ''X'') = Inr result"
    "result ''final_report'' = Some report"
    "report = p0 @ ''X'' @ p1 @ ''S'' @ p2 @ ''T'' @ p3 @ ''M'' @ tail"
    "occurrences ''X'' (p0 @ p1 @ p2 @ p3 @ tail) = 1"
    "occurrences ''X'' report = 2"
    by blast
  then have "projr (fst (analyze_startup stub_generator ''X'')) ''final_report'' =
          Some (p0 @ ''X'' @ p1 @ ''S'' @ p2 @ ''T'' @ p3 @ ''M'' @ tail)
      \<and> occurrences ''X'' (p0 @ p1 @ p2 @ p3 @ tail) = 1
      \<and> occurrences ''X'' (p0 @ ''X'' @ p1 @ ''S'' @ p2 @ ''T'' @ p3 @ ''M'' @ tail) = 2"
    by simp
  with 1 2 3 show ?thesis by blast
qed

text \<open>
  Claim C5 as it is written says that each of \<open>X\<close>, \<open>S\<close>, \<open>T\<close> and \<open>M\<close> occurs exactly
  once in the report. The fixed text of the report has these letters too (\<open>NEXT STEPS\<close>,
  \<open>COMPREHENSIVE STARTUP ANALYSIS\<close>): in the report of the stubbed run \<open>X\<close> occurs twice
  and each of \<open>S\<close>, \<open>T\<close> and \<open>M\<close> more than once.
\<close>

theorem end_to_end_exactly_once_counterexample:
  "projr (fst (analyze_startup stub_generator ''X'')) ''final_report'' =
     Some (final_report_text ''X'' ''S'' ''T'' ''M'')
   \<and> occurrences ''X'' (final_report_text ''X'' ''S'' ''T'' ''M'') = 2
   \<and> 1 < occurrences ''S'' (final_report_text ''X'' ''S'' ''T'' ''M'')
   \<and> 1 < occurrences ''T'' (final_report_text ''X'' ''S'' ''T'' ''M'')
   \<and> 1 < occurrences ''M'' (final_report_text ''X'' ''S'' ''T'' ''M'')"
  by (simp add: stub_run after_entries final_report_text_def occurrences_single_append
      letters_in_template)

end
